theory Spec2Isabelle
  imports Complex_Main
begin

section \<open>JavaScript values used by the configuration loader\<close>

text \<open>
  A JavaScript string is modelled by the list of its UTF-16 code units; a \<^typ>\<open>char\<close>
  stands for one code unit below 256, so the model covers the strings of the Latin-1
  range. \<open>length\<close> is then the \<open>.length\<close> of the source.
\<close>

definition isWhiteSpace :: "char \<Rightarrow> bool" where
  \<comment> \<open>WhiteSpace and LineTerminator code units below 256: TAB, LF, VT, FF, CR, SP, NBSP.\<close>
  "isWhiteSpace c = ((of_char c :: nat) \<in> set [9, 10, 11, 12, 13, 32, 160])"

definition trim :: "string \<Rightarrow> string" where
  \<comment> \<open>\<open>String.prototype.trim\<close>\<close>
  "trim s = rev (dropWhile isWhiteSpace (rev (dropWhile isWhiteSpace s)))"

definition startsWith :: "string \<Rightarrow> string \<Rightarrow> bool" where
  "startsWith s p = (take (length p) s = p)"

definition toLowerChar :: "char \<Rightarrow> char" where
  "toLowerChar c = (let n = (of_char c :: nat) in
     if (65 \<le> n \<and> n \<le> 90) \<or> (192 \<le> n \<and> n \<le> 222 \<and> n \<noteq> 215)
     then char_of (n + 32) else c)"

definition toLowerCase :: "string \<Rightarrow> string" where
  "toLowerCase s = map toLowerChar s"

text \<open>
  The numbers of the configuration all come from \<open>parseInt\<close> or from integer literals:
  a Number is NaN, an integer, or an infinity. \<open>toNumber\<close> is the conversion of a
  mathematical integer to a Number: from \<open>2^1024 - 2^970\<close> on, rounding gives an infinity.
  The rounding of a finite integer beyond \<open>2^53\<close> to the nearest double is not written
  out: the loader only compares these numbers with 0, 1 and 65535 and stores them.
\<close>

datatype jsnumber = NaN | Num int | Infinity | NegInfinity

definition toNumber :: "int \<Rightarrow> jsnumber" where
  "toNumber n = (if 2 ^ 1024 - 2 ^ 970 \<le> n then Infinity
                 else if n \<le> - (2 ^ 1024 - 2 ^ 970) then NegInfinity
                 else Num n)"

definition digitValue :: "char \<Rightarrow> nat option" where
  "digitValue c = (let n = (of_char c :: nat) in
     if 48 \<le> n \<and> n \<le> 57 then Some (n - 48)
     else if 97 \<le> n \<and> n \<le> 122 then Some (n - 87)
     else if 65 \<le> n \<and> n \<le> 90 then Some (n - 55)
     else None)"

definition isDigitIn :: "nat \<Rightarrow> char \<Rightarrow> bool" where
  "isDigitIn R c = (case digitValue c of Some d \<Rightarrow> d < R | None \<Rightarrow> False)"

fun digitsValue :: "nat \<Rightarrow> int \<Rightarrow> string \<Rightarrow> int" where
  "digitsValue R acc [] = acc"
| "digitsValue R acc (c # cs) =
     digitsValue R (acc * int R + int (case digitValue c of Some d \<Rightarrow> d | None \<Rightarrow> 0)) cs"

definition parseInt :: "string \<Rightarrow> jsnumber" where
  \<comment> \<open>\<open>parseInt(string)\<close> with no radix: leading white space is skipped, then a sign,
      then an optional \<open>0x\<close>/\<open>0X\<close> prefix selects radix 16; the longest prefix of digits
      is read, and NaN is the result when it is empty.\<close>
  "parseInt s =
     (let S = dropWhile isWhiteSpace s;
          neg = (S \<noteq> [] \<and> hd S = CHR ''-'');
          S1 = (if S \<noteq> [] \<and> (hd S = CHR ''-'' \<or> hd S = CHR ''+'') then tl S else S);
          hex = (take 2 S1 = ''0x'' \<or> take 2 S1 = ''0X'');
          R = (if hex then 16 else 10);
          S2 = (if hex then drop 2 S1 else S1);
          Z = takeWhile (isDigitIn R) S2
      in if Z = [] then NaN
         else toNumber ((if neg then - 1 else 1) * digitsValue R 0 Z))"

definition parseIntEnv :: "string option \<Rightarrow> jsnumber" where
  \<comment> \<open>\<open>parseInt(process.env.X)\<close>: an unset variable is \<open>undefined\<close>, read as the
      string \<open>"undefined"\<close>.\<close>
  "parseIntEnv v = parseInt (case v of None \<Rightarrow> ''undefined'' | Some s \<Rightarrow> s)"

definition isNaN :: "jsnumber \<Rightarrow> bool" where
  "isNaN n = (n = NaN)"

definition lessThan :: "jsnumber \<Rightarrow> int \<Rightarrow> bool" where
  \<comment> \<open>\<open>n < k\<close> for an integer literal \<open>k\<close>; false on NaN.\<close>
  "lessThan n k = (case n of NaN \<Rightarrow> False | Num i \<Rightarrow> i < k
                     | Infinity \<Rightarrow> False | NegInfinity \<Rightarrow> True)"

definition greaterThan :: "jsnumber \<Rightarrow> int \<Rightarrow> bool" where
  \<comment> \<open>\<open>n > k\<close> for an integer literal \<open>k\<close>; false on NaN.\<close>
  "greaterThan n k = (case n of NaN \<Rightarrow> False | Num i \<Rightarrow> k < i
                        | Infinity \<Rightarrow> True | NegInfinity \<Rightarrow> False)"

definition numOr :: "jsnumber \<Rightarrow> jsnumber \<Rightarrow> jsnumber" where
  \<comment> \<open>\<open>n || d\<close> on numbers: NaN and 0 are falsy.\<close>
  "numOr n d = (if n = NaN \<or> n = Num 0 then d else n)"

definition strOr :: "string option \<Rightarrow> string \<Rightarrow> string" where
  \<comment> \<open>\<open>process.env.X || 'default'\<close>: \<open>undefined\<close> and the empty string are falsy.\<close>
  "strOr v d = (case v of None \<Rightarrow> d | Some s \<Rightarrow> if s = [] then d else s)"

definition strOrNull :: "string option \<Rightarrow> string option" where
  \<comment> \<open>\<open>process.env.X || null\<close>\<close>
  "strOrNull v = (case v of None \<Rightarrow> None | Some s \<Rightarrow> if s = [] then None else Some s)"

definition truthy :: "string option \<Rightarrow> bool" where
  \<comment> \<open>\<open>!!v\<close> for a value that is a string, \<open>null\<close> or \<open>undefined\<close>\<close>
  "truthy v = (case v of None \<Rightarrow> False | Some s \<Rightarrow> s \<noteq> [])"

section \<open>config/index.js: validation of the environment\<close>

type_synonym env = "string \<Rightarrow> string option"

datatype ConfigurationError =
    MissingRequired "string list"
  | GroqKeyTooShort
  | InvalidPort string

datatype warning =
    GroqKeyPrefix
  | NodeEnvNotStandard string
  | ElevenLabsKeyShort
  | MissingOptional "string list"

record envVarSpec =
  key :: string
  required :: bool
  description :: string
  default_value :: "string option"

definition requiredEnvVars :: "envVarSpec list" where
  "requiredEnvVars =
    [\<lparr>key = ''GROQ_API_KEY'', required = True,
      description = ''Groq API key for AI intent processing'', default_value = None\<rparr>,
     \<lparr>key = ''OPENAI_API_KEY'', required = False,
      description = ''OpenAI API key for AI intent processing fallback (optional)'',
      default_value = None\<rparr>,
     \<lparr>key = ''ELEVENLABS_API_KEY'', required = False,
      description = ''ElevenLabs API key for text-to-speech (optional, fallback available)'',
      default_value = None\<rparr>,
     \<lparr>key = ''WEB_SEARCH_API_KEY'', required = False,
      description = ''Web Search API key for enhanced search functionality (optional)'',
      default_value = None\<rparr>,
     \<lparr>key = ''PORT'', required = False,
      description = ''Server port (defaults to 3000)'', default_value = Some ''3000''\<rparr>,
     \<lparr>key = ''NODE_ENV'', required = False,
      description = ''Environment mode (development, production, test)'',
      default_value = Some ''development''\<rparr>]"

definition validEnvs :: "string list" where
  "validEnvs = [''development'', ''production'', ''test'', ''staging'']"

definition validateEnvVarFormat :: "string \<Rightarrow> string \<Rightarrow> ConfigurationError + warning list" where
  \<comment> \<open>The \<open>switch\<close> on the key: \<open>Inl\<close> is the thrown ConfigurationError, \<open>Inr\<close> the
      lines written with \<open>console.warn\<close> when nothing is thrown.\<close>
  "validateEnvVarFormat k v =
     (if k = ''GROQ_API_KEY'' then
        (let ws = (if \<not> startsWith v ''gsk_'' then [GroqKeyPrefix] else []) in
         if length v < 20 then Inl GroqKeyTooShort else Inr ws)
      else if k = ''PORT'' then
        (let port = parseInt v in
         if isNaN port \<or> lessThan port 1 \<or> greaterThan port 65535
         then Inl (InvalidPort v) else Inr [])
      else if k = ''NODE_ENV'' then
        Inr (if toLowerCase v \<notin> set validEnvs then [NodeEnvNotStandard v] else [])
      else if k = ''ELEVENLABS_API_KEY'' then
        Inr (if length v < 20 then [ElevenLabsKeyShort] else [])
      else Inr [])"

record validation =
  missingRequired :: "string list"
  warnings :: "string list"
  console :: "warning list"

definition isMissing :: "string option \<Rightarrow> bool" where
  \<comment> \<open>\<open>!value || value.trim() === ''\<close>\<close>
  "isMissing v = (case v of None \<Rightarrow> True | Some s \<Rightarrow> s = [] \<or> trim s = [])"

definition falsy :: "string option \<Rightarrow> bool" where
  "falsy v = (\<not> truthy v)"

definition checkVar :: "env \<Rightarrow> envVarSpec \<Rightarrow> validation \<Rightarrow> ConfigurationError + validation" where
  \<comment> \<open>The body of the \<open>forEach\<close> over the entries of \<open>requiredEnvVars\<close>.\<close>
  "checkVar e spec st =
     (case (if isMissing (e (key spec)) then None else e (key spec)) of
        None \<Rightarrow>
          (if required spec then Inr (st\<lparr>missingRequired := missingRequired st @ [key spec]\<rparr>)
           else if falsy (default_value spec) then Inr (st\<lparr>warnings := warnings st @ [key spec]\<rparr>)
           else Inr st)
      | Some v \<Rightarrow>
          (case validateEnvVarFormat (key spec) v of
             Inl err \<Rightarrow> Inl err
           | Inr ws \<Rightarrow> Inr (st\<lparr>console := console st @ ws\<rparr>)))"

fun forEach :: "('a \<Rightarrow> 's \<Rightarrow> 'e + 's) \<Rightarrow> 'a list \<Rightarrow> 's \<Rightarrow> 'e + 's" where
  "forEach f [] st = Inr st"
| "forEach f (x # xs) st = (case f x st of Inl err \<Rightarrow> Inl err | Inr st' \<Rightarrow> forEach f xs st')"

definition validateEnvironment :: "env \<Rightarrow> ConfigurationError + warning list" where
  "validateEnvironment e =
     (case forEach (checkVar e) requiredEnvVars
             \<lparr>missingRequired = [], warnings = [], console = []\<rparr> of
        Inl err \<Rightarrow> Inl err
      | Inr st \<Rightarrow>
          if missingRequired st \<noteq> [] then Inl (MissingRequired (missingRequired st))
          else Inr (console st @ (if warnings st \<noteq> [] then [MissingOptional (warnings st)] else [])))"

section \<open>config/index.js: the configuration object\<close>

text \<open>
  A property that holds a number holds \<open>Some n\<close>; \<open>None\<close> is \<open>null\<close>, which the
  loader never stores there but a JSON copy can. An \<open>apiKey\<close> is a string, or \<open>None\<close>
  for \<open>null\<close> and \<open>undefined\<close>.
\<close>

record llm_config =
  apiKey :: "string option"
  baseUrl :: string
  model :: string
  timeout :: "jsnumber option"

record elevenlabs_config =
  el_apiKey :: "string option"
  el_baseUrl :: string
  defaultVoice :: string
  el_timeout :: "jsnumber option"

record webSearch_config =
  ws_apiKey :: "string option"
  provider :: string
  ws_timeout :: "jsnumber option"

datatype cors_origin = OriginTrue | OriginString string

record cors_config =
  origin :: cors_origin
  credentials :: bool

record rateLimit_config =
  windowMs :: "jsnumber option"
  max_requests :: "jsnumber option"

record server_config =
  port :: "jsnumber option"
  host :: string
  environment :: string
  cors :: cors_config
  rateLimit :: rateLimit_config

record logging_config =
  level :: string
  format :: string

record features_config =
  fallbackMode :: bool
  analyticsEnabled :: bool
  debugMode :: bool

record config =
  groq :: llm_config
  openai :: llm_config
  elevenlabs :: elevenlabs_config
  webSearch :: webSearch_config
  server :: server_config
  logging :: logging_config
  features :: features_config

definition loadConfiguration :: "env \<Rightarrow> config" where
  "loadConfiguration e =
    \<lparr>groq = \<lparr>apiKey = e ''GROQ_API_KEY'',
              baseUrl = strOr (e ''GROQ_BASE_URL'') ''https://api.groq.com/openai/v1'',
              model = strOr (e ''GROQ_MODEL'') ''llama3-8b-8192'',
              timeout = Some (numOr (parseIntEnv (e ''GROQ_TIMEOUT'')) (Num 30000))\<rparr>,
     openai = \<lparr>apiKey = strOrNull (e ''OPENAI_API_KEY''),
                baseUrl = strOr (e ''OPENAI_BASE_URL'') ''https://api.openai.com/v1'',
                model = strOr (e ''OPENAI_MODEL'') ''gpt-3.5-turbo'',
                timeout = Some (numOr (parseIntEnv (e ''OPENAI_TIMEOUT'')) (Num 30000))\<rparr>,
     elevenlabs = \<lparr>el_apiKey = strOrNull (e ''ELEVENLABS_API_KEY''),
                    el_baseUrl = strOr (e ''ELEVENLABS_BASE_URL'') ''https://api.elevenlabs.io/v1'',
                    defaultVoice = strOr (e ''ELEVENLABS_DEFAULT_VOICE'') ''rachel'',
                    el_timeout = Some (numOr (parseIntEnv (e ''ELEVENLABS_TIMEOUT'')) (Num 30000))\<rparr>,
     webSearch = \<lparr>ws_apiKey = strOrNull (e ''WEB_SEARCH_API_KEY''),
                   provider = strOr (e ''WEB_SEARCH_PROVIDER'') ''google'',
                   ws_timeout = Some (numOr (parseIntEnv (e ''WEB_SEARCH_TIMEOUT'')) (Num 10000))\<rparr>,
     server = \<lparr>port = Some (numOr (parseIntEnv (e ''PORT'')) (Num 3000)),
                host = strOr (e ''HOST'') ''localhost'',
                environment = strOr (e ''NODE_ENV'') ''development'',
                cors = \<lparr>origin = (if truthy (e ''CORS_ORIGIN'')
                                   then OriginString (strOr (e ''CORS_ORIGIN'') [])
                                   else OriginTrue),
                         credentials = (e ''CORS_CREDENTIALS'' = Some ''true'')\<rparr>,
                rateLimit = \<lparr>windowMs =
                               Some (numOr (parseIntEnv (e ''RATE_LIMIT_WINDOW_MS'')) (Num (15 * 60 * 1000))),
                             max_requests =
                               Some (numOr (parseIntEnv (e ''RATE_LIMIT_MAX'')) (Num 1000))\<rparr>\<rparr>,
     logging = \<lparr>level = strOr (e ''LOG_LEVEL'') ''info'',
                 format = strOr (e ''LOG_FORMAT'') ''combined''\<rparr>,
     features = \<lparr>fallbackMode = (e ''ENABLE_FALLBACK'' \<noteq> Some ''false''),
                  analyticsEnabled = (e ''ANALYTICS_ENABLED'' = Some ''true''),
                  debugMode = (e ''DEBUG_MODE'' = Some ''true'')\<rparr>\<rparr>"

definition Config_new :: "env \<Rightarrow> ConfigurationError + (config \<times> warning list)" where
  \<comment> \<open>The constructor: \<open>validateEnvironment()\<close>, then \<open>loadConfiguration()\<close>. \<open>Inl\<close> is
      the exception thrown; \<open>Inr\<close> carries the object built and the warnings printed.\<close>
  "Config_new e =
     (case validateEnvironment e of
        Inl err \<Rightarrow> Inl err
      | Inr ws \<Rightarrow> Inr (loadConfiguration e, ws))"

definition hasGroqApiKey :: "config \<Rightarrow> bool" where
  "hasGroqApiKey c = truthy (apiKey (groq c))"

definition hasOpenAiApiKey :: "config \<Rightarrow> bool" where
  "hasOpenAiApiKey c = truthy (apiKey (openai c))"

definition hasElevenLabsApiKey :: "config \<Rightarrow> bool" where
  "hasElevenLabsApiKey c = truthy (el_apiKey (elevenlabs c))"

definition hasWebSearchApiKey :: "config \<Rightarrow> bool" where
  "hasWebSearchApiKey c = truthy (ws_apiKey (webSearch c))"

definition isProduction :: "config \<Rightarrow> bool" where
  "isProduction c = (environment (server c) = ''production'')"

definition isDevelopment :: "config \<Rightarrow> bool" where
  "isDevelopment c = (environment (server c) = ''development'')"

definition isTest :: "config \<Rightarrow> bool" where
  "isTest c = (environment (server c) = ''test'')"

subsection \<open>getSanitizedConfig\<close>

text \<open>
  \<open>JSON.parse(JSON.stringify(this.config))\<close> on an object of this shape: strings, booleans
  and \<open>null\<close> are copied as they are; a finite number is copied, and \<open>JSON.stringify\<close>
  writes NaN and the infinities as \<open>null\<close>.
\<close>

definition jsonNumber :: "jsnumber option \<Rightarrow> jsnumber option" where
  "jsonNumber n = (case n of Some (Num i) \<Rightarrow> Some (Num i) | _ \<Rightarrow> None)"

definition jsonCopy :: "config \<Rightarrow> config" where
  "jsonCopy c =
    \<lparr>groq = \<lparr>apiKey = apiKey (groq c), baseUrl = baseUrl (groq c), model = model (groq c),
              timeout = jsonNumber (timeout (groq c))\<rparr>,
     openai = \<lparr>apiKey = apiKey (openai c), baseUrl = baseUrl (openai c), model = model (openai c),
                timeout = jsonNumber (timeout (openai c))\<rparr>,
     elevenlabs = \<lparr>el_apiKey = el_apiKey (elevenlabs c), el_baseUrl = el_baseUrl (elevenlabs c),
                    defaultVoice = defaultVoice (elevenlabs c),
                    el_timeout = jsonNumber (el_timeout (elevenlabs c))\<rparr>,
     webSearch = \<lparr>ws_apiKey = ws_apiKey (webSearch c), provider = provider (webSearch c),
                   ws_timeout = jsonNumber (ws_timeout (webSearch c))\<rparr>,
     server = \<lparr>port = jsonNumber (port (server c)),
                host = host (server c),
                environment = environment (server c),
                cors = \<lparr>origin = origin (cors (server c)),
                         credentials = credentials (cors (server c))\<rparr>,
                rateLimit = \<lparr>windowMs = jsonNumber (windowMs (rateLimit (server c))),
                              max_requests = jsonNumber (max_requests (rateLimit (server c)))\<rparr>\<rparr>,
     logging = \<lparr>level = level (logging c), format = format (logging c)\<rparr>,
     features = \<lparr>fallbackMode = fallbackMode (features c),
                  analyticsEnabled = analyticsEnabled (features c),
                  debugMode = debugMode (features c)\<rparr>\<rparr>"

definition REDACTED :: string where
  "REDACTED = ''***REDACTED***''"

definition mask :: "string option \<Rightarrow> string option" where
  \<comment> \<open>\<open>if (k) k = '***REDACTED***'\<close>\<close>
  "mask k = (if truthy k then Some REDACTED else k)"

definition getSanitizedConfig :: "config \<Rightarrow> config" where
  "getSanitizedConfig c =
     (let sanitized = jsonCopy c;
          sanitized = sanitized\<lparr>groq := (groq sanitized)\<lparr>apiKey := mask (apiKey (groq sanitized))\<rparr>\<rparr>;
          sanitized = sanitized\<lparr>openai := (openai sanitized)\<lparr>apiKey := mask (apiKey (openai sanitized))\<rparr>\<rparr>;
          sanitized = sanitized\<lparr>elevenlabs :=
            (elevenlabs sanitized)\<lparr>el_apiKey := mask (el_apiKey (elevenlabs sanitized))\<rparr>\<rparr>;
          sanitized = sanitized\<lparr>webSearch :=
            (webSearch sanitized)\<lparr>ws_apiKey := mask (ws_apiKey (webSearch sanitized))\<rparr>\<rparr>
      in sanitized)"

definition withApiKeys ::
  "string option \<Rightarrow> string option \<Rightarrow> string option \<Rightarrow> string option \<Rightarrow> config \<Rightarrow> config" where
  \<comment> \<open>The configuration with its four API keys replaced and every other field kept.\<close>
  "withApiKeys g a l w c =
     c\<lparr>groq := (groq c)\<lparr>apiKey := g\<rparr>,
       openai := (openai c)\<lparr>apiKey := a\<rparr>,
       elevenlabs := (elevenlabs c)\<lparr>el_apiKey := l\<rparr>,
       webSearch := (webSearch c)\<lparr>ws_apiKey := w\<rparr>\<rparr>"

definition finiteNumber :: "jsnumber option \<Rightarrow> bool" where
  "finiteNumber n = (case n of Some (Num i) \<Rightarrow> True | _ \<Rightarrow> False)"

definition finiteNumbers :: "config \<Rightarrow> bool" where
  "finiteNumbers c =
     (finiteNumber (timeout (groq c)) \<and> finiteNumber (timeout (openai c)) \<and>
      finiteNumber (el_timeout (elevenlabs c)) \<and> finiteNumber (ws_timeout (webSearch c)) \<and>
      finiteNumber (port (server c)) \<and> finiteNumber (windowMs (rateLimit (server c))) \<and>
      finiteNumber (max_requests (rateLimit (server c))))"

section \<open>config/index.js: the singleton\<close>

text \<open>
  The process: its environment, the objects allocated so far (a store from references to
  objects), the module variable \<open>configInstance\<close> (\<open>None\<close> is \<open>null\<close>), and the number of
  times the environment has been read to validate or to load a configuration (a run of
  the constructor counts once). An object of the store is an instance of the class
  \<open>Config\<close>, given by the configuration it holds in \<open>this.config\<close>, or a plain object of
  the same shape, as \<open>getSanitizedConfig\<close> returns.
\<close>

type_synonym ref = nat

datatype object = ConfigInstance config | PlainObject config

record process =
  environ :: env
  heap :: "ref \<Rightarrow> object option"
  nextRef :: ref
  configInstance :: "ref option"
  envReads :: nat

definition startup :: "env \<Rightarrow> process" where
  "startup e = \<lparr>environ = e, heap = (\<lambda>r. None), nextRef = 0, configInstance = None, envReads = 0\<rparr>"

definition allocate :: "object \<Rightarrow> process \<Rightarrow> process" where
  \<comment> \<open>a new object, at a reference not used before\<close>
  "allocate ob p = p\<lparr>heap := (heap p)(nextRef p := Some ob), nextRef := nextRef p + 1\<rparr>"

definition getConfig :: "process \<Rightarrow> (ConfigurationError + ref) \<times> process" where
  \<comment> \<open>\<open>if (!configInstance) configInstance = new Config(); return configInstance\<close>\<close>
  "getConfig p =
     (case configInstance p of
        Some r \<Rightarrow> (Inr r, p)
      | None \<Rightarrow>
          (case Config_new (environ p) of
             Inl err \<Rightarrow> (Inl err, p\<lparr>envReads := envReads p + 1\<rparr>)
           | Inr (c, ws) \<Rightarrow>
               (Inr (nextRef p),
                (allocate (ConfigInstance c) p)
                  \<lparr>configInstance := Some (nextRef p), envReads := envReads p + 1\<rparr>)))"

text \<open>
  What the rest of the program can do with the module. It calls \<open>getConfig\<close>. It calls
  \<open>new Config()\<close>, the class being exported. It calls a method of an instance: every
  method of the class is public, \<open>validateEnvironment\<close> and \<open>loadConfiguration\<close> included,
  and \<open>loadConfiguration\<close> assigns to \<open>this.config\<close> the configuration it loads from the
  environment of the moment. It writes to a property of an object it holds: the getters
  return the inner objects themselves and nothing is frozen, so a write through what a
  getter returned is a write to the instance; the write is given by the change it makes.
  And the environment may change. The other methods read the object;
  \<open>getSanitizedConfig\<close> works on the object tree that \<open>JSON.parse\<close> builds, which shares
  nothing with the instance, and returns it as a new object. A method called on an
  object that is not an instance is not there to be called, and nothing changes.
\<close>

datatype member =
    ValidateEnvironment | ValidateEnvVarFormat | CreateMissingEnvErrorMessage
  | LoadConfiguration | LogConfigurationStatus
  | Getter
  | IsProduction | IsDevelopment | IsTest
  | HasGroqApiKey | HasOpenAiApiKey | HasElevenLabsApiKey | HasWebSearchApiKey
  | GetSanitizedConfig

datatype operation =
    GetConfig
  | NewConfig
  | Call ref member
  | Write ref "config \<Rightarrow> config"
  | SetEnv string "string option"

definition callMethod :: "ref \<Rightarrow> member \<Rightarrow> process \<Rightarrow> process" where
  "callMethod r m p =
     (case heap p r of
        Some (ConfigInstance c) \<Rightarrow>
          (case m of
             LoadConfiguration \<Rightarrow>
               p\<lparr>heap := (heap p)(r := Some (ConfigInstance (loadConfiguration (environ p)))),
                 envReads := envReads p + 1\<rparr>
           | ValidateEnvironment \<Rightarrow> p\<lparr>envReads := envReads p + 1\<rparr>
           | GetSanitizedConfig \<Rightarrow> allocate (PlainObject (getSanitizedConfig c)) p
           | _ \<Rightarrow> p)
      | _ \<Rightarrow> p)"

definition newConfig :: "process \<Rightarrow> process" where
  \<comment> \<open>\<open>new Config()\<close> called on the exported class: the module variable is not touched.\<close>
  "newConfig p =
     (case Config_new (environ p) of
        Inl err \<Rightarrow> p\<lparr>envReads := envReads p + 1\<rparr>
      | Inr (c, ws) \<Rightarrow> (allocate (ConfigInstance c) p)\<lparr>envReads := envReads p + 1\<rparr>)"

definition writeObject :: "ref \<Rightarrow> (config \<Rightarrow> config) \<Rightarrow> process \<Rightarrow> process" where
  "writeObject r f p =
     (case heap p r of
        Some (ConfigInstance c) \<Rightarrow> p\<lparr>heap := (heap p)(r := Some (ConfigInstance (f c)))\<rparr>
      | Some (PlainObject c) \<Rightarrow> p\<lparr>heap := (heap p)(r := Some (PlainObject (f c)))\<rparr>
      | None \<Rightarrow> p)"

fun step :: "operation \<Rightarrow> process \<Rightarrow> process" where
  "step GetConfig p = snd (getConfig p)"
| "step NewConfig p = newConfig p"
| "step (Call r m) p = callMethod r m p"
| "step (Write r f) p = writeObject r f p"
| "step (SetEnv k v) p = p\<lparr>environ := (environ p)(k := v)\<rparr>"

fun run :: "operation list \<Rightarrow> process \<Rightarrow> process" where
  "run [] p = p"
| "run (x # xs) p = run xs (step x p)"

fun changes :: "ref \<Rightarrow> operation \<Rightarrow> bool" where
  \<comment> \<open>the operation is \<open>loadConfiguration()\<close> on this object, or a write to it\<close>
  "changes r (Call r' LoadConfiguration) = (r' = r)"
| "changes r (Write r' f) = (r' = r)"
| "changes r x = False"

fun readsEnvironment :: "operation \<Rightarrow> bool" where
  \<comment> \<open>the operation is one that reads the environment when it is not \<open>getConfig\<close>:
      \<open>new Config()\<close>, \<open>validateEnvironment()\<close> or \<open>loadConfiguration()\<close>\<close>
  "readsEnvironment NewConfig = True"
| "readsEnvironment (Call r LoadConfiguration) = True"
| "readsEnvironment (Call r ValidateEnvironment) = True"
| "readsEnvironment x = False"

definition portAt :: "process \<Rightarrow> ref \<Rightarrow> jsnumber option" where
  \<comment> \<open>\<open>server.port\<close> of the object at a reference; \<open>None\<close> (as \<open>null\<close>) when there is none\<close>
  "portAt p r =
     (case heap p r of
        Some (ConfigInstance c) \<Rightarrow> port (server c)
      | Some (PlainObject c) \<Rightarrow> port (server c)
      | None \<Rightarrow> None)"

section \<open>server.js: the health endpoints\<close>

text \<open>
  A response is its status code and its body. A body that is a JSON text, as
  \<open>res.json(v)\<close> writes it, is kept as the value it denotes (\<open>JsonText\<close>); a body that
  is not a JSON text, on which \<open>JSON.parse\<close> throws, is kept as its text (\<open>PlainText\<close>).
  The time stamp and the uptime are read from the clock and are parameters here.
\<close>

datatype json =
    JNull
  | JBool bool
  | JNumber rat
  | JString string
  | JArray "json list"
  | JObject "(string \<times> json) list"

datatype body = JsonText json | PlainText string

record response =
  statusCode :: nat
  content :: body

definition health :: "config \<Rightarrow> string \<Rightarrow> rat \<Rightarrow> response" where
  \<comment> \<open>\<open>app.get('/health', ...)\<close>: \<open>res.json\<close> answers with status 200.\<close>
  "health c now up =
    \<lparr>statusCode = 200,
     content = JsonText (JObject
       [(''status'', JString ''healthy''),
        (''timestamp'', JString now),
        (''uptime'', JNumber up),
        (''environment'', JString (environment (server c))),
        (''services'', JObject
           [(''groq'', JString (if hasGroqApiKey c then ''configured'' else ''missing'')),
            (''elevenlabs'', JString (if hasElevenLabsApiKey c then ''configured'' else ''not configured'')),
            (''webSearch'', JString (if hasWebSearchApiKey c then ''configured'' else ''not configured''))]),
        (''features'', JObject
           [(''fallbackMode'', JBool (fallbackMode (features c))),
            (''debugMode'', JBool (debugMode (features c)))])])\<rparr>"

text \<open>
  The rate limiter is mounted with \<open>app.use(limiter)\<close> before every route. Whether it lets
  a request pass depends on the requests counted for the client in the current window, which
  the limiter keeps; its decision is a parameter here. A request it refuses is answered
  with status 429 and the \<open>message\<close> it was built with, and no route runs. The other
  middleware mounted before the routes lets a GET request pass.
\<close>

datatype limiter_decision = Pass | Limited

definition limiterMessage :: string where
  "limiterMessage = ''Too many requests from this IP, please try again later.''"

definition getHealth :: "limiter_decision \<Rightarrow> config \<Rightarrow> string \<Rightarrow> rat \<Rightarrow> response" where
  \<comment> \<open>The answer of the server to \<open>GET /health\<close>.\<close>
  "getHealth d c now up =
     (case d of
        Limited \<Rightarrow> \<lparr>statusCode = 429, content = PlainText limiterMessage\<rparr>
      | Pass \<Rightarrow> health c now up)"

subsection \<open>GET /health/api\<close>

text \<open>
  The call \<open>groq.chat.completions.create\<close> is made by the SDK: what it is called with is
  recorded, and what it answers (it returns, or throws an error with a message, a code and
  a type) is given by a parameter.
\<close>

record groq_request =
  req_apiKey :: "string option"
  req_baseURL :: string
  req_timeout :: nat
  req_model :: string
  req_content :: string
  req_max_tokens :: nat
  req_temperature :: nat

record sdk_error =
  message :: string
  code :: "string option"
  type :: "string option"

text \<open>
  \<open>JSON.stringify\<close> leaves out a property whose value is \<open>undefined\<close>: an error with no
  \<open>code\<close> is written without one.
\<close>

definition str_includes :: "string \<Rightarrow> string \<Rightarrow> bool" where
  \<comment> \<open>\<open>String.prototype.includes\<close>\<close>
  "str_includes s sub = (\<exists>i \<in> set (upt 0 (Suc (length s))). take (length sub) (drop i s) = sub)"

definition groqErrorJson :: "sdk_error \<Rightarrow> json" where
  "groqErrorJson err =
     JObject ([(''message'', JString (message err))] @
              (case code err of None \<Rightarrow> [] | Some k \<Rightarrow> [(''code'', JString k)]) @
              [(''type'', JString (case type err of Some t \<Rightarrow> if t = [] then ''unknown'' else t
                                     | None \<Rightarrow> ''unknown''))] @
              (if str_includes (message err) ''401'' \<or> str_includes (message err) ''unauthorized'' then
                 [(''suggestion'', JString ''Check if your GROQ_API_KEY is valid and properly formatted'')]
               else if str_includes (message err) ''timeout'' then
                 [(''suggestion'', JString ''Groq API is slow to respond, may be experiencing issues'')]
               else if str_includes (message err) ''network'' \<or> str_includes (message err) ''ENOTFOUND'' then
                 [(''suggestion'', JString ''Check your internet connection and Groq API URL'')]
               else []))"

definition healthApi ::
  "(groq_request \<Rightarrow> sdk_error + unit) \<Rightarrow> config \<Rightarrow> string \<Rightarrow> string \<Rightarrow> rat
     \<Rightarrow> groq_request list \<times> response" where
  \<comment> \<open>\<open>app.get('/health/api', ...)\<close>: the requests sent to the Groq API, and the response.
      \<open>now\<close> is the time stamp at entry, \<open>checked\<close> the one taken after the call.\<close>
  "healthApi sdk c now checked up =
     (let request = \<lparr>req_apiKey = apiKey (groq c), req_baseURL = baseUrl (groq c),
                      req_timeout = 10000, req_model = model (groq c),
                      req_content = ''test'', req_max_tokens = 1, req_temperature = 0\<rparr>;
          calls = (if hasGroqApiKey c then [request] else []);
          outcome = (if hasGroqApiKey c then Some (sdk request) else None);
          groqStatus = (case outcome of
                          None \<Rightarrow> ''missing_api_key''
                        | Some (Inr u) \<Rightarrow> ''healthy''
                        | Some (Inl err) \<Rightarrow> ''error'');
          groqService = JObject
            ([(''configured'', JBool (hasGroqApiKey c)),
              (''status'', JString groqStatus),
              (''lastChecked'', (case outcome of None \<Rightarrow> JNull | Some r \<Rightarrow> JString checked)),
              (''error'', (case outcome of
                  None \<Rightarrow> JObject
                    [(''message'', JString ''GROQ_API_KEY is not configured''),
                     (''suggestion'',
                      JString ''Set GROQ_API_KEY environment variable with your Groq API key'')]
                | Some (Inr u) \<Rightarrow> JNull
                | Some (Inl err) \<Rightarrow> groqErrorJson err))] @
             (case outcome of Some (Inr u) \<Rightarrow> [(''model'', JString (model (groq c)))] | _ \<Rightarrow> []));
          healthy = (groqStatus = ''healthy'')
      in (calls,
          \<lparr>statusCode = (if healthy then 200 else 503),
           content = JsonText (JObject
             [(''status'', JString (if healthy then ''healthy'' else ''unhealthy'')),
              (''timestamp'', JString now),
              (''uptime'', JNumber up),
              (''environment'', JString (environment (server c))),
              (''services'', JObject
                 [(''groq'', groqService),
                  (''elevenlabs'', JObject
                     [(''configured'', JBool (hasElevenLabsApiKey c)),
                      (''status'', JString (if hasElevenLabsApiKey c then ''configured''
                                            else ''not configured''))]),
                  (''webSearch'', JObject
                     [(''configured'', JBool (hasWebSearchApiKey c)),
                      (''status'', JString (if hasWebSearchApiKey c then ''configured''
                                            else ''not configured''))])]),
              (''overall'', JObject
                 [(''healthy'', JBool healthy),
                  (''critical_services_ok'', JBool (groqStatus = ''healthy''))])])\<rparr>))"

section \<open>healthcheck.js\<close>

text \<open>
  The script sends \<open>GET /health\<close> and ends the process with an exit code: what it gets is
  a response, a timeout after 5 seconds, or a request error.
\<close>

datatype outcome = Response response | RequestTimeout | RequestError string

definition JSON_parse :: "body \<Rightarrow> json option" where
  \<comment> \<open>\<open>JSON.parse(data)\<close>: \<open>None\<close> when it throws.\<close>
  "JSON_parse b = (case b of JsonText v \<Rightarrow> Some v | PlainText s \<Rightarrow> None)"

definition property :: "json \<Rightarrow> string \<Rightarrow> json option" where
  \<comment> \<open>\<open>v.name\<close> on a value that is not \<open>null\<close>: \<open>None\<close> is \<open>undefined\<close>. Of a property
      written twice, the last one is read.\<close>
  "property v name = (case v of JObject props \<Rightarrow> map_of (rev props) name | _ \<Rightarrow> None)"

definition healthcheck :: "outcome \<Rightarrow> nat" where
  \<comment> \<open>the exit code\<close>
  "healthcheck out =
     (case out of
        RequestTimeout \<Rightarrow> 1
      | RequestError msg \<Rightarrow> 1
      | Response res \<Rightarrow>
          (case JSON_parse (content res) of
             None \<Rightarrow> 1
           | Some JNull \<Rightarrow> 1
           | Some h \<Rightarrow>
               if statusCode res = 200 \<and> property h ''status'' = Some (JString ''healthy'')
               then 0 else 1))"

section \<open>The intent resolution pipeline\<close>

text \<open>
  Modelled from the spec: the resolver, the normalizer, the provider clients and the
  fallback parser are in \<open>services/intentService.js\<close>, which is not among the sources.
  The types and the functions of this section follow the specification (sections 3, 4.1
  to 4.4 and 6). What the specification leaves
  open is a parameter: the closed verb set (its list ends with an ellipsis), the rule
  table of the fallback parser, the structured decoder, and what the two providers answer.
  The primary provider is Groq and the secondary one OpenAI, as the implementation summary
  of the repository says; whether each is configured is read from the configuration
  object of \<open>config/index.js\<close>.
\<close>

datatype provenance = Primary | Secondary | Fallback

record Intent =
  action :: string
  target :: "string option"
  parameters :: "(string \<times> string) list"
  confidence :: rat
  providerUsed :: provenance
  rawText :: string

record element =
  tag :: string
  visibleText :: string
  attributes :: "(string \<times> string) list"

record session_context =
  sessionId :: string
  url :: string
  availableElements :: "element list"

datatype ProviderError = Timeout | AuthError | RateLimited | ServerError | NetworkError

datatype NormalizationError = NormalizationError

text \<open>
  The structured object that a provider's text decodes to, or that a rule of the fallback
  parser builds: any of its parts may be missing.
\<close>

record structured =
  s_action :: "string option"
  s_target :: "string option"
  s_parameters :: "(string \<times> string) list"
  s_confidence :: "rat option"

record rule =
  pattern :: "string \<Rightarrow> bool"
  builder :: "string \<Rightarrow> structured"

type_synonym provider = "string \<Rightarrow> session_context \<Rightarrow> ProviderError + string"

record deployment =
  verb_set :: "string list"
  rule_table :: "rule list"
  decode :: "string \<Rightarrow> structured option"
  primary :: provider
  secondary :: provider

definition defaultConfidence :: "provenance \<Rightarrow> rat" where
  \<comment> \<open>Modelled from the spec: the normalizer is not among the sources. "missing confidence
      defaults to a provenance-dependent constant (AI-provided: 0.8; fallback: 0.4)".\<close>
  "defaultConfidence p = (case p of Fallback \<Rightarrow> 2 / 5 | _ \<Rightarrow> 4 / 5)"

definition clamp :: "rat \<Rightarrow> rat" where
  \<comment> \<open>Modelled from the spec: the normalizer is not among the sources. "Clamp confidence
      to [0,1]".\<close>
  "clamp x = max 0 (min 1 x)"

definition canonical :: "string list \<Rightarrow> provenance \<Rightarrow> string \<Rightarrow> structured \<Rightarrow> Intent" where
  \<comment> \<open>Modelled from the spec: the normalizer is not among the sources. "Validate action
      against the closed verb set; unrecognized verbs are coerced to unknown rather than
      rejected"; the confidence is clamped, or defaulted when missing; the provenance and
      the original input are recorded.\<close>
  "canonical V p text s =
     \<lparr>action = (case s_action s of
                   Some a \<Rightarrow> if a \<in> set V then a else ''unknown''
                 | None \<Rightarrow> ''unknown''),
      target = s_target s,
      parameters = s_parameters s,
      confidence = clamp (case s_confidence s of Some x \<Rightarrow> x | None \<Rightarrow> defaultConfidence p),
      providerUsed = p,
      rawText = text\<rparr>"

definition extractKeyword :: "string list \<Rightarrow> string \<Rightarrow> string option" where
  \<comment> \<open>Modelled from the spec: the normalizer is not among the sources. "look for an action
      keyword anywhere in the raw text".\<close>
  "extractKeyword V raw = find (\<lambda>v. str_includes raw v) V"

definition normalize ::
  "deployment \<Rightarrow> string \<Rightarrow> provenance \<Rightarrow> string \<Rightarrow> NormalizationError + Intent" where
  \<comment> \<open>Modelled from the spec: the normalizer is not among the sources.
      \<open>normalize(raw, provenance) -> Intent | NormalizationError\<close>: the structured decode
      first, then the keyword extraction, and the error only when both fail.\<close>
  "normalize D raw p text =
     (case decode D raw of
        Some s \<Rightarrow> Inr (canonical (verb_set D) p text s)
      | None \<Rightarrow>
          (case extractKeyword (verb_set D) raw of
             Some v \<Rightarrow> Inr (canonical (verb_set D) p text
                          \<lparr>s_action = Some v, s_target = None, s_parameters = [], s_confidence = None\<rparr>)
           | None \<Rightarrow> Inl NormalizationError))"

definition unknownIntent :: "string \<Rightarrow> Intent" where
  \<comment> \<open>Modelled from the spec: the fallback parser is not among the sources. "If no rule
      matches, return action: unknown, confidence: 0".\<close>
  "unknownIntent text =
     \<lparr>action = ''unknown'', target = None, parameters = [], confidence = 0,
      providerUsed = Fallback, rawText = text\<rparr>"

definition parse :: "deployment \<Rightarrow> string \<Rightarrow> Intent" where
  \<comment> \<open>Modelled from the spec: the fallback parser is not among the sources.
      \<open>parse(text) -> Intent\<close>: the rules are tried in order on the lower-cased, trimmed
      input and the first that matches wins; what its builder gives goes through the
      normalizer with provenance fallback; empty or blank input, and input no rule matches,
      give the unknown intent. The folding of accents that the spec mentions is not
      written out.\<close>
  "parse D text =
     (let t = trim (toLowerCase text) in
      if t = [] then unknownIntent text
      else (case find (\<lambda>r. pattern r t) (rule_table D) of
              None \<Rightarrow> unknownIntent text
            | Some r \<Rightarrow> canonical (verb_set D) Fallback text (builder r t)))"

datatype attempt_outcome = Succeeded | ProviderFailed ProviderError | NormalizationFailed

type_synonym attempt = "provenance \<times> attempt_outcome"

definition attemptProvider ::
  "deployment \<Rightarrow> provenance \<Rightarrow> provider \<Rightarrow> string \<Rightarrow> session_context
     \<Rightarrow> Intent option \<times> attempt" where
  \<comment> \<open>Modelled from the spec: the resolver is not among the sources. One call of the
      provider; "On success, normalize"; a provider error, a timeout (one of the provider
      errors) or a normalization failure is a failed attempt. The attempt is logged.\<close>
  "attemptProvider D p client text ctx =
     (case client text ctx of
        Inl err \<Rightarrow> (None, (p, ProviderFailed err))
      | Inr raw \<Rightarrow>
          (case normalize D raw p text of
             Inl err \<Rightarrow> (None, (p, NormalizationFailed))
           | Inr i \<Rightarrow> (Some i, (p, Succeeded))))"

definition tryFallback :: "deployment \<Rightarrow> string \<Rightarrow> Intent" where
  \<comment> \<open>Modelled from the spec: the resolver is not among the sources. State TryFallback:
      "invoke the deterministic parser, which by construction cannot fail".\<close>
  "tryFallback D text = parse D text"

definition trySecondary ::
  "deployment \<Rightarrow> config \<Rightarrow> string \<Rightarrow> session_context \<Rightarrow> Intent \<times> attempt list" where
  \<comment> \<open>Modelled from the spec: the resolver is not among the sources. State TrySecondary:
      "same protocol against the secondary provider, only if configured. Failure goes to
      TryFallback".\<close>
  "trySecondary D c text ctx =
     (if hasOpenAiApiKey c then
        (case attemptProvider D Secondary (secondary D) text ctx of
           (Some i, a) \<Rightarrow> (i, [a])
         | (None, a) \<Rightarrow> (tryFallback D text, [a]))
      else (tryFallback D text, []))"

definition tryPrimary ::
  "deployment \<Rightarrow> config \<Rightarrow> string \<Rightarrow> session_context \<Rightarrow> Intent \<times> attempt list" where
  \<comment> \<open>Modelled from the spec: the resolver is not among the sources. State TryPrimary:
      "if primary provider is configured, call it"; success resolves, a failed attempt goes
      to TrySecondary, with no second attempt.\<close>
  "tryPrimary D c text ctx =
     (if hasGroqApiKey c then
        (case attemptProvider D Primary (primary D) text ctx of
           (Some i, a) \<Rightarrow> (i, [a])
         | (None, a) \<Rightarrow> (case trySecondary D c text ctx of (i, l) \<Rightarrow> (i, a # l)))
      else trySecondary D c text ctx)"

definition resolveIntent ::
  "deployment \<Rightarrow> config \<Rightarrow> string \<Rightarrow> session_context \<Rightarrow> Intent \<times> attempt list" where
  \<comment> \<open>Modelled from the spec: the resolver is not among the sources.
      \<open>resolveIntent(text, context) -> Intent\<close>, from the state TryPrimary; the second
      component is the log of the attempts made.\<close>
  "resolveIntent D c text ctx = tryPrimary D c text ctx"

section \<open>Auxiliary notions for the proofs\<close>

definition validPort :: "jsnumber \<Rightarrow> bool" where
  "validPort n = (\<exists>i. n = Num i \<and> 1 \<le> i \<and> i \<le> 65535)"

definition throwsAt :: "env \<Rightarrow> envVarSpec \<Rightarrow> bool" where
  \<comment> \<open>the variable of this entry has a value whose format check throws\<close>
  "throwsAt e spec =
     (\<not> isMissing (e (key spec)) \<and>
      (case e (key spec) of None \<Rightarrow> False | Some v \<Rightarrow> isl (validateEnvVarFormat (key spec) v)))"

definition formatWarnings :: "env \<Rightarrow> envVarSpec \<Rightarrow> warning list" where
  \<comment> \<open>the warnings the format check of this entry prints\<close>
  "formatWarnings e spec =
     (case e (key spec) of
        None \<Rightarrow> []
      | Some v \<Rightarrow>
          if isMissing (Some v) then []
          else (case validateEnvVarFormat (key spec) v of Inl err \<Rightarrow> [] | Inr ws \<Rightarrow> ws))"

definition optionalKeys :: "string list" where
  "optionalKeys = [''OPENAI_API_KEY'', ''ELEVENLABS_API_KEY'', ''WEB_SEARCH_API_KEY'']"

definition consistent :: "process \<Rightarrow> bool" where
  \<comment> \<open>the instance, once set, is an object that was allocated\<close>
  "consistent p = (case configInstance p of None \<Rightarrow> True | Some r \<Rightarrow> r < nextRef p)"

subsection \<open>Environments used as examples\<close>

definition envMinimal :: env where
  "envMinimal = (\<lambda>k. None)(''GROQ_API_KEY'' := Some ''gsk_0123456789abcdefghij'')"

definition envAnomalies :: env where
  "envAnomalies = (\<lambda>k. None)
     (''GROQ_API_KEY'' := Some ''sk_live_0123456789abcdef'',
      ''ELEVENLABS_API_KEY'' := Some ''short'',
      ''NODE_ENV'' := Some ''Prod'',
      ''PORT'' := Some ''8080'')"

definition envBlankPort :: env where
  "envBlankPort = (\<lambda>k. None)
     (''GROQ_API_KEY'' := Some ''gsk_0123456789abcdefghij'', ''PORT'' := Some '' '')"

definition envHugeTimeout :: env where
  "envHugeTimeout = (\<lambda>k. None)
     (''GROQ_API_KEY'' := Some ''gsk_0123456789abcdefghij'',
      ''GROQ_TIMEOUT'' := Some (CHR ''1'' # replicate 309 (CHR ''0'')))"

definition opsExample :: "operation list" where
  \<comment> \<open>operations that neither change the object at 0 nor read the environment\<close>
  "opsExample = [SetEnv ''GROQ_API_KEY'' None, Call 0 GetSanitizedConfig, Call 0 HasGroqApiKey,
                 Call 0 Getter, SetEnv ''PORT'' (Some ''99999''), GetConfig]"

definition opsAny :: "operation list" where
  \<comment> \<open>operations of every kind\<close>
  "opsAny = [SetEnv ''PORT'' (Some ''8081''), Call 0 LoadConfiguration, NewConfig,
             Write 0 (\<lambda>c. c\<lparr>server := (server c)\<lparr>port := Some (Num 1)\<rparr>\<rparr>),
             Call 0 ValidateEnvironment, Call 1 GetSanitizedConfig, GetConfig]"

definition opsReload :: "operation list" where
  \<comment> \<open>the port is changed in the environment and the instance loads its configuration again\<close>
  "opsReload = [SetEnv ''PORT'' (Some ''8081''), Call 0 LoadConfiguration]"

definition envOpenAi :: env where
  "envOpenAi = (\<lambda>k. None)
     (''GROQ_API_KEY'' := Some ''gsk_0123456789abcdefghij'',
      ''OPENAI_API_KEY'' := Some ''sk-0123456789abcdefghij'')"

definition configMinimal :: config where
  "configMinimal = loadConfiguration envMinimal"

definition configNoKeys :: config where
  "configNoKeys = withApiKeys None None None None (loadConfiguration envMinimal)"

subsection \<open>A deployment used as an example\<close>

definition scrollDown :: rule where
  "scrollDown =
     \<lparr>pattern = (\<lambda>t. str_includes t ''scroll down''),
      builder = (\<lambda>t. \<lparr>s_action = Some ''scroll'', s_target = None,
                          s_parameters = [(''direction'', ''down'')], s_confidence = None\<rparr>)\<rparr>"

definition decodeExample :: "string \<Rightarrow> structured option" where
  "decodeExample raw =
     (if raw = ''{action: click, target: Submit, confidence: 0.9}'' then
        Some \<lparr>s_action = Some ''click'', s_target = Some ''Submit'', s_parameters = [],
              s_confidence = Some (9 / 10)\<rparr>
      else None)"

definition deploymentExample :: deployment where
  "deploymentExample =
     \<lparr>verb_set = [''scroll'', ''click'', ''fill'', ''search'', ''navigate''],
      rule_table = [scrollDown],
      decode = decodeExample,
      primary = (\<lambda>text ctx. Inl ServerError),
      secondary = (\<lambda>text ctx. Inr ''{action: click, target: Submit, confidence: 0.9}'')\<rparr>"

definition contextExample :: session_context where
  "contextExample = \<lparr>sessionId = ''s-1'', url = ''https://example.com'', availableElements = []\<rparr>"

definition configBothKeys :: config where
  "configBothKeys =
     withApiKeys (Some ''gsk_0123456789abcdefghij'') (Some ''sk-0123456789abcdefghij'') None None
       (loadConfiguration envMinimal)"

definition providerTimeout :: provider where
  \<comment> \<open>a provider whose every call times out\<close>
  "providerTimeout text ctx = Inl Timeout"

definition configOpenAi :: config where
  \<comment> \<open>the configuration of an environment with the keys of both providers\<close>
  "configOpenAi = loadConfiguration envOpenAi"

definition deploymentDown :: deployment where
  \<comment> \<open>the example deployment with both providers failing\<close>
  "deploymentDown = deploymentExample\<lparr>secondary := (\<lambda>text ctx. Inl RateLimited)\<rparr>"

section \<open>The constructor of Config: when it throws\<close>

lemma trim_Nil: "trim [] = []"
  by (simp add: trim_def)

lemma isMissing_iff: "isMissing v \<longleftrightarrow> v = None \<or> (\<exists>s. v = Some s \<and> trim s = [])"
  by (auto simp: isMissing_def trim_Nil split: option.splits)

lemma not_missing_truthy: "\<not> isMissing v \<Longrightarrow> truthy v"
  by (auto simp: isMissing_def truthy_def split: option.splits)

lemma port_check: "(isNaN n \<or> lessThan n 1 \<or> greaterThan n 65535) \<longleftrightarrow> \<not> validPort n"
  by (cases n) (auto simp: isNaN_def lessThan_def greaterThan_def validPort_def)

lemma format_throws_iff:
  "isl (validateEnvVarFormat k v) \<longleftrightarrow>
     (k = ''GROQ_API_KEY'' \<and> length v < 20) \<or> (k = ''PORT'' \<and> \<not> validPort (parseInt v))"
  by (simp add: validateEnvVarFormat_def Let_def port_check)

lemma checkVar_isl: "isl (checkVar e spec st) = throwsAt e spec"
  by (auto simp: checkVar_def throwsAt_def isMissing_def split: option.splits sum.splits)

lemma checkVar_missing:
  "checkVar e spec st = Inr st' \<Longrightarrow>
   missingRequired st' =
     missingRequired st @ (if isMissing (e (key spec)) \<and> required spec then [key spec] else [])"
  by (auto simp: checkVar_def isMissing_def split: option.splits sum.splits if_splits)

lemma checkVar_console:
  "checkVar e spec st = Inr st' \<Longrightarrow> console st' = console st @ formatWarnings e spec"
  by (auto simp: checkVar_def formatWarnings_def isMissing_def
           split: option.splits sum.splits if_splits)

lemma checkVar_warnings:
  "checkVar e spec st = Inr st' \<Longrightarrow>
   warnings st' = warnings st @
     (if isMissing (e (key spec)) \<and> \<not> required spec \<and> falsy (default_value spec)
      then [key spec] else [])"
  by (auto simp: checkVar_def isMissing_def split: option.splits sum.splits if_splits)

text \<open>The loop stops at the first entry whose check throws.\<close>

lemma forEach_isl:
  "isl (forEach (checkVar e) xs st) \<longleftrightarrow> (\<exists>x \<in> set xs. throwsAt e x)"
proof (induction xs arbitrary: st)
  case Nil
  then show ?case by simp
next
  case (Cons x xs)
  show ?case
  proof (cases "checkVar e x st")
    case (Inl err)
    then have "throwsAt e x" using checkVar_isl [of e x st] by simp
    with Inl show ?thesis by simp
  next
    case (Inr st')
    then have "\<not> throwsAt e x" using checkVar_isl [of e x st] by simp
    with Inr Cons.IH [of st'] show ?thesis by simp
  qed
qed

lemma forEach_Cons_Inr:
  assumes "forEach f (x # xs) st = Inr st'"
  obtains st1 where "f x st = Inr st1" and "forEach f xs st1 = Inr st'"
  using assms by (auto split: sum.splits)

lemma forEach_missing:
  "forEach (checkVar e) xs st = Inr st' \<Longrightarrow>
   missingRequired st' =
     missingRequired st @ map key (filter (\<lambda>x. isMissing (e (key x)) \<and> required x) xs)"
proof (induction xs arbitrary: st)
  case Nil
  then show ?case by simp
next
  case (Cons x xs)
  from Cons.prems obtain st1
    where s1: "checkVar e x st = Inr st1" and s2: "forEach (checkVar e) xs st1 = Inr st'"
    by (rule forEach_Cons_Inr)
  from checkVar_missing [OF s1] Cons.IH [OF s2] show ?case by simp
qed

lemma forEach_console:
  "forEach (checkVar e) xs st = Inr st' \<Longrightarrow>
   console st' = console st @ concat (map (formatWarnings e) xs)"
proof (induction xs arbitrary: st)
  case Nil
  then show ?case by simp
next
  case (Cons x xs)
  from Cons.prems obtain st1
    where s1: "checkVar e x st = Inr st1" and s2: "forEach (checkVar e) xs st1 = Inr st'"
    by (rule forEach_Cons_Inr)
  from checkVar_console [OF s1] Cons.IH [OF s2] show ?case by simp
qed

lemma forEach_warnings:
  "forEach (checkVar e) xs st = Inr st' \<Longrightarrow>
   warnings st' = warnings st @
     map key (filter (\<lambda>x. isMissing (e (key x)) \<and> \<not> required x \<and> falsy (default_value x)) xs)"
proof (induction xs arbitrary: st)
  case Nil
  then show ?case by simp
next
  case (Cons x xs)
  from Cons.prems obtain st1
    where s1: "checkVar e x st = Inr st1" and s2: "forEach (checkVar e) xs st1 = Inr st'"
    by (rule forEach_Cons_Inr)
  from checkVar_warnings [OF s1] Cons.IH [OF s2] show ?case by simp
qed

lemma validate_isl:
  "isl (validateEnvironment e) \<longleftrightarrow>
     (\<exists>x \<in> set requiredEnvVars. throwsAt e x) \<or>
     (\<exists>x \<in> set requiredEnvVars. isMissing (e (key x)) \<and> required x)"
proof (cases "forEach (checkVar e) requiredEnvVars
                \<lparr>missingRequired = [], warnings = [], console = []\<rparr>")
  case (Inl err)
  then show ?thesis
    using forEach_isl [of e requiredEnvVars "\<lparr>missingRequired = [], warnings = [], console = []\<rparr>"]
    by (simp add: validateEnvironment_def)
next
  case (Inr st')
  from forEach_missing [OF Inr]
    forEach_isl [of e requiredEnvVars "\<lparr>missingRequired = [], warnings = [], console = []\<rparr>"] Inr
  show ?thesis
    by (auto simp: validateEnvironment_def filter_empty_conv)
qed

lemma validate_iff:
  "isl (validateEnvironment e) \<longleftrightarrow>
     isMissing (e ''GROQ_API_KEY'')
   \<or> (\<exists>v. e ''GROQ_API_KEY'' = Some v \<and> length v < 20)
   \<or> (\<exists>p. e ''PORT'' = Some p \<and> \<not> isMissing (Some p) \<and> \<not> validPort (parseInt p))"
  unfolding validate_isl
  by (auto simp: requiredEnvVars_def throwsAt_def format_throws_iff split: option.splits)

lemma validate_Inr:
  assumes "validateEnvironment e = Inr ws"
  shows "ws = concat (map (formatWarnings e) requiredEnvVars) @
           (if filter (\<lambda>k. isMissing (e k)) optionalKeys \<noteq> []
            then [MissingOptional (filter (\<lambda>k. isMissing (e k)) optionalKeys)] else [])"
proof -
  let ?st0 = "\<lparr>missingRequired = [], warnings = [], console = []\<rparr>"
  from assms obtain st' where fe: "forEach (checkVar e) requiredEnvVars ?st0 = Inr st'"
    and ws: "ws = console st' @ (if warnings st' \<noteq> [] then [MissingOptional (warnings st')] else [])"
    by (auto simp: validateEnvironment_def split: sum.splits if_splits)
  have w: "warnings st' = filter (\<lambda>k. isMissing (e k)) optionalKeys"
    using forEach_warnings [OF fe]
    by (simp add: requiredEnvVars_def optionalKeys_def falsy_def truthy_def)
  have c: "console st' = concat (map (formatWarnings e) requiredEnvVars)"
    using forEach_console [OF fe] by simp
  show ?thesis unfolding ws w c ..
qed

lemma formatWarnings_table:
  "concat (map (formatWarnings e) requiredEnvVars) =
     formatWarnings e (requiredEnvVars ! 0) @ formatWarnings e (requiredEnvVars ! 2) @
     formatWarnings e (requiredEnvVars ! 5)"
  by (simp add: requiredEnvVars_def formatWarnings_def validateEnvVarFormat_def Let_def
           split: option.splits sum.splits)

lemma fw_groq:
  "formatWarnings e (requiredEnvVars ! 0) =
     (case e ''GROQ_API_KEY'' of
        None \<Rightarrow> []
      | Some v \<Rightarrow> if isMissing (Some v) \<or> length v < 20 \<or> startsWith v ''gsk_'' then []
                  else [GroqKeyPrefix])"
  by (simp add: requiredEnvVars_def formatWarnings_def validateEnvVarFormat_def
           split: option.splits)

lemma fw_el:
  "formatWarnings e (requiredEnvVars ! 2) =
     (case e ''ELEVENLABS_API_KEY'' of
        None \<Rightarrow> []
      | Some v \<Rightarrow> if \<not> isMissing (Some v) \<and> length v < 20 then [ElevenLabsKeyShort] else [])"
  by (simp add: requiredEnvVars_def formatWarnings_def validateEnvVarFormat_def
           split: option.splits)

lemma fw_node:
  "formatWarnings e (requiredEnvVars ! 5) =
     (case e ''NODE_ENV'' of
        None \<Rightarrow> []
      | Some v \<Rightarrow> if \<not> isMissing (Some v) \<and> toLowerCase v \<notin> set validEnvs
                  then [NodeEnvNotStandard v] else [])"
  by (simp add: requiredEnvVars_def formatWarnings_def validateEnvVarFormat_def
           split: option.splits)

lemma Config_new_isl: "isl (Config_new e) = isl (validateEnvironment e)"
  by (simp add: Config_new_def split: sum.splits)

lemma Config_new_Inr:
  "Config_new e = Inr (c, ws) \<longleftrightarrow> validateEnvironment e = Inr ws \<and> c = loadConfiguration e"
  by (auto simp: Config_new_def split: sum.splits)

text \<open>A configuration that was constructed has a Groq API key.\<close>

lemma Config_new_has_groq:
  assumes "Config_new e = Inr (c, ws)"
  shows "hasGroqApiKey c"
proof -
  from assms have "\<not> isl (validateEnvironment e)" and c: "c = loadConfiguration e"
    by (simp_all add: Config_new_Inr)
  then have "\<not> isMissing (e ''GROQ_API_KEY'')"
    unfolding validate_iff by simp
  then have "truthy (e ''GROQ_API_KEY'')"
    by (rule not_missing_truthy)
  then show ?thesis
    by (simp add: c hasGroqApiKey_def loadConfiguration_def)
qed

text \<open>
  Claim C8, as amended. \<open>new Config()\<close> throws a ConfigurationError exactly when
  \<open>GROQ_API_KEY\<close> is absent or blank, or it is present and shorter than 20 characters, or
  \<open>PORT\<close> is set to a value that is not blank and that \<open>parseInt\<close> does not read as an
  integer between 1 and 65535. In every other case the object is built from the
  environment, and the anomalies are warnings only: a Groq key that does not start with
  \<open>gsk_\<close>, an ElevenLabs key shorter than 20 characters, a \<open>NODE_ENV\<close> outside the standard
  names, and the optional keys that are missing, each give their warning and nothing else.
  (The claim as written has no "not blank" for \<open>PORT\<close>: a blank \<open>PORT\<close> is treated as
  missing, and the default port is used.)
\<close>

theorem Config_new_throws_iff:
  "(isl (Config_new e) \<longleftrightarrow>
      (e ''GROQ_API_KEY'' = None \<or> (\<exists>v. e ''GROQ_API_KEY'' = Some v \<and> trim v = []))
    \<or> (\<exists>v. e ''GROQ_API_KEY'' = Some v \<and> length v < 20)
    \<or> (\<exists>p. e ''PORT'' = Some p \<and> trim p \<noteq> [] \<and>
            \<not> (\<exists>i. parseInt p = Num i \<and> 1 \<le> i \<and> i \<le> 65535)))
   \<and> (Config_new e = Inr (c, ws) \<longrightarrow>
        c = loadConfiguration e
      \<and> (GroqKeyPrefix \<in> set ws \<longleftrightarrow>
           (\<exists>v. e ''GROQ_API_KEY'' = Some v \<and> \<not> startsWith v ''gsk_''))
      \<and> (ElevenLabsKeyShort \<in> set ws \<longleftrightarrow>
           (\<exists>v. e ''ELEVENLABS_API_KEY'' = Some v \<and> trim v \<noteq> [] \<and> length v < 20))
      \<and> (NodeEnvNotStandard n \<in> set ws \<longleftrightarrow>
           e ''NODE_ENV'' = Some n \<and> trim n \<noteq> [] \<and> toLowerCase n \<notin> set validEnvs)
      \<and> (MissingOptional ks \<in> set ws \<longleftrightarrow>
           ks \<noteq> [] \<and> ks = filter (\<lambda>k. isMissing (e k))
              [''OPENAI_API_KEY'', ''ELEVENLABS_API_KEY'', ''WEB_SEARCH_API_KEY'']))"
proof (intro conjI impI)
  show "isl (Config_new e) \<longleftrightarrow>
      (e ''GROQ_API_KEY'' = None \<or> (\<exists>v. e ''GROQ_API_KEY'' = Some v \<and> trim v = []))
    \<or> (\<exists>v. e ''GROQ_API_KEY'' = Some v \<and> length v < 20)
    \<or> (\<exists>p. e ''PORT'' = Some p \<and> trim p \<noteq> [] \<and>
            \<not> (\<exists>i. parseInt p = Num i \<and> 1 \<le> i \<and> i \<le> 65535))"
    unfolding Config_new_isl validate_iff isMissing_iff validPort_def by auto
next
  assume ok: "Config_new e = Inr (c, ws)"
  then have v: "validateEnvironment e = Inr ws" and c: "c = loadConfiguration e"
    by (simp_all add: Config_new_Inr)
  from c show "c = loadConfiguration e" .
  from v have "\<not> isl (validateEnvironment e)" by simp
  then obtain g where g: "e ''GROQ_API_KEY'' = Some g" "trim g \<noteq> []" "\<not> length g < 20"
    unfolding validate_iff isMissing_iff by auto
  note ws = validate_Inr [OF v, unfolded formatWarnings_table fw_groq fw_el fw_node optionalKeys_def]
  show "GroqKeyPrefix \<in> set ws \<longleftrightarrow>
          (\<exists>v. e ''GROQ_API_KEY'' = Some v \<and> \<not> startsWith v ''gsk_'')"
    by (subst ws) (use g in \<open>auto simp: isMissing_iff split: option.splits\<close>)
  show "ElevenLabsKeyShort \<in> set ws \<longleftrightarrow>
          (\<exists>v. e ''ELEVENLABS_API_KEY'' = Some v \<and> trim v \<noteq> [] \<and> length v < 20)"
    by (subst ws, cases "e ''ELEVENLABS_API_KEY''") (use g in \<open>auto simp: isMissing_iff\<close>)
  show "NodeEnvNotStandard n \<in> set ws \<longleftrightarrow>
          e ''NODE_ENV'' = Some n \<and> trim n \<noteq> [] \<and> toLowerCase n \<notin> set validEnvs"
    by (subst ws, cases "e ''NODE_ENV''") (use g in \<open>auto simp: isMissing_iff\<close>)
  show "MissingOptional ks \<in> set ws \<longleftrightarrow>
          ks \<noteq> [] \<and> ks = filter (\<lambda>k. isMissing (e k))
             [''OPENAI_API_KEY'', ''ELEVENLABS_API_KEY'', ''WEB_SEARCH_API_KEY'']"
    by (subst ws) (use g in \<open>auto simp: isMissing_iff split: option.splits\<close>)
qed

text \<open>
  An environment with each of these anomalies: the constructor succeeds, with the four
  warnings.
\<close>

theorem Config_new_throws_iff_witness:
  "Config_new envAnomalies =
     Inr (loadConfiguration envAnomalies,
          [GroqKeyPrefix, ElevenLabsKeyShort, NodeEnvNotStandard ''Prod'',
           MissingOptional [''OPENAI_API_KEY'', ''WEB_SEARCH_API_KEY'']])
   \<and> (\<exists>v. envAnomalies ''GROQ_API_KEY'' = Some v \<and> \<not> startsWith v ''gsk_'')
   \<and> (\<exists>v. envAnomalies ''ELEVENLABS_API_KEY'' = Some v \<and> trim v \<noteq> [] \<and> length v < 20)
   \<and> toLowerCase ''Prod'' \<notin> set validEnvs"
proof -
  let ?ws = "[GroqKeyPrefix, ElevenLabsKeyShort, NodeEnvNotStandard ''Prod'',
              MissingOptional [''OPENAI_API_KEY'', ''WEB_SEARCH_API_KEY'']]"
  have ok: "Config_new envAnomalies = Inr (loadConfiguration envAnomalies, ?ws)"
    by code_simp
  from Config_new_throws_iff [where e = envAnomalies and c = "loadConfiguration envAnomalies"
      and ws = ?ws and n = "''Prod''"] ok
  show ?thesis by simp
qed

text \<open>
  The claim as written fails where \<open>PORT\<close> is set to a blank value: \<open>parseInt\<close> reads no
  integer from it, and the constructor does not throw.
\<close>

theorem Config_new_blank_port_counterexample:
  "envBlankPort ''PORT'' = Some '' '' \<and> parseInt '' '' = NaN \<and> \<not> isl (Config_new envBlankPort)"
proof (intro conjI)
  show "envBlankPort ''PORT'' = Some '' ''" by (simp add: envBlankPort_def)
  show "parseInt '' '' = NaN" by code_simp
  show "\<not> isl (Config_new envBlankPort)" by code_simp
qed

section \<open>getSanitizedConfig\<close>

lemma jsonNumber_finite: "finiteNumber n \<Longrightarrow> jsonNumber n = n"
  by (auto simp: finiteNumber_def jsonNumber_def split: option.splits jsnumber.splits)

lemma jsonNumber_not_finite: "\<not> finiteNumber n \<Longrightarrow> jsonNumber n = None"
  by (auto simp: finiteNumber_def jsonNumber_def split: option.splits jsnumber.splits)

lemma jsonCopy_finite: "finiteNumbers c \<Longrightarrow> jsonCopy c = c"
  by (simp add: jsonCopy_def finiteNumbers_def jsonNumber_finite)

lemma sanitized_explicit:
  "getSanitizedConfig c =
     withApiKeys (mask (apiKey (groq c))) (mask (apiKey (openai c)))
        (mask (el_apiKey (elevenlabs c))) (mask (ws_apiKey (webSearch c))) (jsonCopy c)"
  by (simp add: getSanitizedConfig_def withApiKeys_def jsonCopy_def Let_def)

lemma jsonCopy_withApiKeys:
  "jsonCopy (withApiKeys g a l w c) = withApiKeys g a l w (jsonCopy c)"
  by (simp add: withApiKeys_def jsonCopy_def)

lemma withApiKeys_twice:
  "withApiKeys g a l w (withApiKeys g' a' l' w' c) = withApiKeys g a l w c"
  by (simp add: withApiKeys_def)

lemma withApiKeys_sel:
  "apiKey (groq (withApiKeys g a l w c)) = g"
  "apiKey (openai (withApiKeys g a l w c)) = a"
  "el_apiKey (elevenlabs (withApiKeys g a l w c)) = l"
  "ws_apiKey (webSearch (withApiKeys g a l w c)) = w"
  by (simp_all add: withApiKeys_def)

lemma mask_agree: "(truthy k \<and> truthy k') \<or> k = k' \<Longrightarrow> mask k = mask k'"
  by (auto simp: mask_def)

lemma sanitized_noninterference:
  assumes "(truthy g \<and> truthy g') \<or> g = g'" "(truthy a \<and> truthy a') \<or> a = a'"
    "(truthy l \<and> truthy l') \<or> l = l'" "(truthy w \<and> truthy w') \<or> w = w'"
  shows "getSanitizedConfig (withApiKeys g a l w c) = getSanitizedConfig (withApiKeys g' a' l' w' c)"
  unfolding sanitized_explicit withApiKeys_sel jsonCopy_withApiKeys withApiKeys_twice
  using assms [THEN mask_agree] by simp

text \<open>
  Claim C9, as amended. \<open>getSanitizedConfig\<close> returns the JSON copy of the configuration
  with each API key that is set (a string that is not empty) replaced by the constant
  \<open>***REDACTED***\<close> and each key that is not set left as it is. The JSON copy equals the
  configuration when its numbers are finite; a number that is not finite is \<open>null\<close> in
  the copy. So on a configuration with finite numbers the function is the identity but
  for the keys that are set. Two configurations that differ only in their API keys, each
  key being set in both or the same in both, have the same sanitized output: the output
  depends on the keys through their masks only, so it shows which keys are set and
  nothing of their value.
\<close>

theorem getSanitizedConfig_redacts:
  "getSanitizedConfig c =
     withApiKeys (mask (apiKey (groq c))) (mask (apiKey (openai c)))
        (mask (el_apiKey (elevenlabs c))) (mask (ws_apiKey (webSearch c))) (jsonCopy c)
   \<and> mask k = (if k = None \<or> k = Some [] then k else Some ''***REDACTED***'')
   \<and> (finiteNumbers c \<longrightarrow>
        getSanitizedConfig c =
          withApiKeys (mask (apiKey (groq c))) (mask (apiKey (openai c)))
             (mask (el_apiKey (elevenlabs c))) (mask (ws_apiKey (webSearch c))) c)
   \<and> (\<not> finiteNumber x \<longrightarrow> jsonNumber x = None)
   \<and> timeout (groq (getSanitizedConfig c)) = jsonNumber (timeout (groq c))
   \<and> timeout (openai (getSanitizedConfig c)) = jsonNumber (timeout (openai c))
   \<and> el_timeout (elevenlabs (getSanitizedConfig c)) = jsonNumber (el_timeout (elevenlabs c))
   \<and> ws_timeout (webSearch (getSanitizedConfig c)) = jsonNumber (ws_timeout (webSearch c))
   \<and> port (server (getSanitizedConfig c)) = jsonNumber (port (server c))
   \<and> windowMs (rateLimit (server (getSanitizedConfig c))) =
       jsonNumber (windowMs (rateLimit (server c)))
   \<and> max_requests (rateLimit (server (getSanitizedConfig c))) =
       jsonNumber (max_requests (rateLimit (server c)))
   \<and> getSanitizedConfig (withApiKeys g a l w c) =
       withApiKeys (mask g) (mask a) (mask l) (mask w) (jsonCopy c)
   \<and> (((truthy g \<and> truthy g') \<or> g = g') \<and> ((truthy a \<and> truthy a') \<or> a = a') \<and>
       ((truthy l \<and> truthy l') \<or> l = l') \<and> ((truthy w \<and> truthy w') \<or> w = w') \<longrightarrow>
        getSanitizedConfig (withApiKeys g a l w c) = getSanitizedConfig (withApiKeys g' a' l' w' c))"
proof (intro conjI impI)
  show "getSanitizedConfig c =
     withApiKeys (mask (apiKey (groq c))) (mask (apiKey (openai c)))
        (mask (el_apiKey (elevenlabs c))) (mask (ws_apiKey (webSearch c))) (jsonCopy c)"
    by (rule sanitized_explicit)
  show "mask k = (if k = None \<or> k = Some [] then k else Some ''***REDACTED***'')"
    by (auto simp: mask_def truthy_def REDACTED_def split: option.splits)
  show "getSanitizedConfig c =
          withApiKeys (mask (apiKey (groq c))) (mask (apiKey (openai c)))
             (mask (el_apiKey (elevenlabs c))) (mask (ws_apiKey (webSearch c))) c"
    if "finiteNumbers c"
    using that by (simp add: sanitized_explicit jsonCopy_finite)
  show "jsonNumber x = None" if "\<not> finiteNumber x"
    using that by (rule jsonNumber_not_finite)
  show "getSanitizedConfig (withApiKeys g a l w c) =
          withApiKeys (mask g) (mask a) (mask l) (mask w) (jsonCopy c)"
    by (simp add: sanitized_explicit withApiKeys_sel jsonCopy_withApiKeys withApiKeys_twice)
  show "getSanitizedConfig (withApiKeys g a l w c) = getSanitizedConfig (withApiKeys g' a' l' w' c)"
    if "((truthy g \<and> truthy g') \<or> g = g') \<and> ((truthy a \<and> truthy a') \<or> a = a') \<and>
        ((truthy l \<and> truthy l') \<or> l = l') \<and> ((truthy w \<and> truthy w') \<or> w = w')"
    using that by (intro sanitized_noninterference) simp_all
qed (simp_all add: getSanitizedConfig_def jsonCopy_def Let_def)

text \<open>
  On the configuration of a minimal environment: the numbers are finite, the Groq key is
  the only field changed, and another key in its place gives the same output.
\<close>

theorem getSanitizedConfig_redacts_witness:
  "finiteNumbers configMinimal
   \<and> getSanitizedConfig configMinimal = withApiKeys (Some ''***REDACTED***'') None None None configMinimal
   \<and> getSanitizedConfig (withApiKeys (Some ''gsk_0123456789abcdefghij'') None None None configMinimal)
     = getSanitizedConfig (withApiKeys (Some ''gsk_another_key_0123456789'') None None None configMinimal)
   \<and> \<not> finiteNumber (Some Infinity) \<and> jsonNumber (Some Infinity) = None"
proof -
  have f: "finiteNumbers configMinimal"
    by code_simp
  have k: "apiKey (groq configMinimal) = Some ''gsk_0123456789abcdefghij''"
    "apiKey (openai configMinimal) = None" "el_apiKey (elevenlabs configMinimal) = None"
    "ws_apiKey (webSearch configMinimal) = None"
    by code_simp+
  have t: "truthy (Some ''gsk_0123456789abcdefghij'')" "truthy (Some ''gsk_another_key_0123456789'')"
    by (simp_all add: truthy_def)
  have n: "\<not> finiteNumber (Some Infinity)"
    by (simp add: finiteNumber_def)
  note inst = getSanitizedConfig_redacts
    [where c = configMinimal and x = "Some Infinity"
       and g = "Some ''gsk_0123456789abcdefghij''" and g' = "Some ''gsk_another_key_0123456789''"
       and a = None and a' = None and l = None and l' = None and w = None and w' = None]
  from inst f have "getSanitizedConfig configMinimal =
      withApiKeys (mask (apiKey (groq configMinimal))) (mask (apiKey (openai configMinimal)))
        (mask (el_apiKey (elevenlabs configMinimal))) (mask (ws_apiKey (webSearch configMinimal)))
        configMinimal"
    by blast
  then have 1: "getSanitizedConfig configMinimal =
      withApiKeys (Some ''***REDACTED***'') None None None configMinimal"
    by (simp add: k mask_def truthy_def REDACTED_def)
  from inst t have 2:
    "getSanitizedConfig (withApiKeys (Some ''gsk_0123456789abcdefghij'') None None None configMinimal)
     = getSanitizedConfig (withApiKeys (Some ''gsk_another_key_0123456789'') None None None configMinimal)"
    by blast
  from inst n have 3: "jsonNumber (Some Infinity) = None"
    by blast
  from f 1 2 n 3 show ?thesis by blast
qed

text \<open>
  The claim as written (the identity but for the API keys) fails on a configuration with
  a number that is not finite: with \<open>GROQ_TIMEOUT\<close> set to 1 followed by 309 zeros the
  constructor succeeds, the timeout of the configuration is \<open>Infinity\<close>, and the timeout
  of the sanitized copy is \<open>null\<close>.
\<close>

theorem getSanitizedConfig_infinity_counterexample:
  "\<not> isl (Config_new envHugeTimeout)
   \<and> timeout (groq (loadConfiguration envHugeTimeout)) = Some Infinity
   \<and> timeout (groq (getSanitizedConfig (loadConfiguration envHugeTimeout))) = None"
proof (intro conjI)
  show "\<not> isl (Config_new envHugeTimeout)" by code_simp
  show "timeout (groq (loadConfiguration envHugeTimeout)) = Some Infinity" by code_simp
  show "timeout (groq (getSanitizedConfig (loadConfiguration envHugeTimeout))) = None" by code_simp
qed

section \<open>The singleton returned by getConfig\<close>

lemma getConfig_set:
  assumes "configInstance p = Some r"
  shows "getConfig p = (Inr r, p)"
  using assms by (simp add: getConfig_def)

lemma getConfig_Inr:
  assumes "getConfig p = (Inr r, q)"
  shows "configInstance q = Some r"
  using assms by (auto simp: getConfig_def allocate_def split: option.splits sum.splits prod.splits)

lemma getConfig_consistent:
  assumes "consistent p"
  shows "consistent (snd (getConfig p))"
  using assms
  by (auto simp: getConfig_def allocate_def consistent_def split: option.splits sum.splits prod.splits)

lemma step_instance:
  assumes "configInstance p = Some r" and "r < nextRef p"
  shows "configInstance (step x p) = Some r \<and> r < nextRef (step x p)"
proof (cases x)
  case GetConfig
  with assms show ?thesis by (simp add: getConfig_set)
next
  case NewConfig
  with assms show ?thesis
    by (auto simp: newConfig_def allocate_def split: sum.splits prod.splits)
next
  case (Call r' m)
  with assms show ?thesis
    by (auto simp: callMethod_def allocate_def split: option.splits object.splits member.splits)
next
  case (Write r' f)
  with assms show ?thesis
    by (auto simp: writeObject_def split: option.splits object.splits)
next
  case (SetEnv k v)
  with assms show ?thesis by simp
qed

lemma run_instance:
  "configInstance p = Some r \<Longrightarrow> r < nextRef p \<Longrightarrow>
   configInstance (run ops p) = Some r \<and> r < nextRef (run ops p)"
proof (induction ops arbitrary: p)
  case Nil
  then show ?case by simp
next
  case (Cons x xs)
  from step_instance [OF Cons.prems, of x] Cons.IH [of "step x p"]
  show ?case by simp
qed

lemma step_frame:
  assumes "configInstance p = Some r" and "r < nextRef p" and "\<not> changes r x"
  shows "heap (step x p) r = heap p r"
proof (cases x)
  case GetConfig
  with assms show ?thesis by (simp add: getConfig_set)
next
  case NewConfig
  with assms show ?thesis
    by (auto simp: newConfig_def allocate_def split: sum.splits prod.splits)
next
  case (Call r' m)
  with assms show ?thesis
    by (cases m) (auto simp: callMethod_def allocate_def split: option.splits object.splits)
next
  case (Write r' f)
  with assms show ?thesis
    by (auto simp: writeObject_def split: option.splits object.splits)
next
  case (SetEnv k v)
  with assms show ?thesis by simp
qed

lemma step_reads:
  assumes "configInstance p = Some r" and "\<not> readsEnvironment x"
  shows "envReads (step x p) = envReads p"
proof (cases x)
  case GetConfig
  with assms show ?thesis by (simp add: getConfig_set)
next
  case NewConfig
  with assms show ?thesis by simp
next
  case (Call r' m)
  with assms show ?thesis
    by (cases m) (auto simp: callMethod_def allocate_def split: option.splits object.splits)
next
  case (Write r' f)
  with assms show ?thesis
    by (auto simp: writeObject_def split: option.splits object.splits)
next
  case (SetEnv k v)
  with assms show ?thesis by simp
qed

lemma run_frame:
  "configInstance p = Some r \<Longrightarrow> r < nextRef p \<Longrightarrow> list_all (\<lambda>x. \<not> changes r x) ops \<Longrightarrow>
   heap (run ops p) r = heap p r"
proof (induction ops arbitrary: p)
  case Nil
  then show ?case by simp
next
  case (Cons x xs)
  from Cons.prems have nx: "\<not> changes r x" and rest: "list_all (\<lambda>x. \<not> changes r x) xs"
    by simp_all
  from step_instance [OF Cons.prems(1,2), of x]
  have "heap (run xs (step x p)) r = heap (step x p) r"
    using Cons.IH [of "step x p"] rest by simp
  with step_frame [OF Cons.prems(1,2) nx] show ?case by simp
qed

lemma run_reads:
  "configInstance p = Some r \<Longrightarrow> r < nextRef p \<Longrightarrow> list_all (\<lambda>x. \<not> readsEnvironment x) ops \<Longrightarrow>
   envReads (run ops p) = envReads p"
proof (induction ops arbitrary: p)
  case Nil
  then show ?case by simp
next
  case (Cons x xs)
  from Cons.prems have nx: "\<not> readsEnvironment x" and rest: "list_all (\<lambda>x. \<not> readsEnvironment x) xs"
    by simp_all
  from step_instance [OF Cons.prems(1,2), of x]
  have "envReads (run xs (step x p)) = envReads (step x p)"
    using Cons.IH [of "step x p"] rest by simp
  with step_reads [OF Cons.prems(1) nx] show ?case by simp
qed

lemma step_consistent:
  assumes "consistent p"
  shows "consistent (step x p)"
proof (cases x)
  case GetConfig
  with assms show ?thesis by (simp add: getConfig_consistent)
next
  case NewConfig
  with assms show ?thesis
    by (auto simp: newConfig_def allocate_def consistent_def split: sum.splits prod.splits option.splits)
next
  case (Call r m)
  with assms show ?thesis
    by (cases m) (auto simp: callMethod_def allocate_def consistent_def split: option.splits object.splits)
next
  case (Write r f)
  with assms show ?thesis
    by (auto simp: writeObject_def consistent_def split: option.splits object.splits)
next
  case (SetEnv k v)
  with assms show ?thesis by (auto simp: consistent_def split: option.splits)
qed

lemma run_consistent: "consistent p \<Longrightarrow> consistent (run ops p)"
  by (induction ops arbitrary: p) (simp_all add: step_consistent)

lemma startup_consistent: "consistent (startup e)"
  by (simp add: consistent_def startup_def)

lemma getConfig_startup:
  assumes "getConfig (startup e) = (Inr r, p)"
  shows "envReads p = 1 \<and> heap p r = Some (ConfigInstance (loadConfiguration e))"
  using assms
  by (auto simp: getConfig_def startup_def allocate_def Config_new_def split: sum.splits prod.splits)

text \<open>
  Claim C7, as amended. Once a call of \<open>getConfig\<close> has returned an instance, every later
  call returns that same instance and changes nothing, whatever was done in between: calls
  of \<open>getConfig\<close> and of \<open>new Config()\<close>, calls of any method, writes to any object, changes of
  the environment. The configuration it holds is not immutable, and the environment can
  be read again: the object stays as it was only as long as \<open>loadConfiguration()\<close> is not
  called on it and nothing is written to it, and the environment is not read again only
  as long as \<open>new Config()\<close>, \<open>validateEnvironment()\<close> and \<open>loadConfiguration()\<close> are not
  called; \<open>getConfig\<close> itself, the other methods and a change of the environment do
  neither. When the call that returned the instance is the first thing the process did,
  the environment has been read once, and the object holds the configuration loaded from
  the environment of the start.
\<close>

theorem getConfig_singleton:
  assumes "getConfig (run before (startup e)) = (Inr r, p)"
  shows "getConfig (run ops p) = (Inr r, run ops p)
       \<and> (list_all (\<lambda>x. \<not> changes r x) ops \<longrightarrow> heap (run ops p) r = heap p r)
       \<and> (list_all (\<lambda>x. \<not> readsEnvironment x) ops \<longrightarrow> envReads (run ops p) = envReads p)
       \<and> (before = [] \<longrightarrow>
            envReads p = 1 \<and> heap p r = Some (ConfigInstance (loadConfiguration e)))"
proof -
  have ci: "configInstance p = Some r"
    using assms by (rule getConfig_Inr)
  have "consistent (snd (getConfig (run before (startup e))))"
    by (intro getConfig_consistent run_consistent startup_consistent)
  with assms ci have lt: "r < nextRef p"
    by (simp add: consistent_def)
  from run_instance [OF ci lt, of ops]
  have "getConfig (run ops p) = (Inr r, run ops p)"
    by (simp add: getConfig_set)
  moreover have "list_all (\<lambda>x. \<not> changes r x) ops \<longrightarrow> heap (run ops p) r = heap p r"
    using run_frame [OF ci lt] by blast
  moreover have "list_all (\<lambda>x. \<not> readsEnvironment x) ops \<longrightarrow> envReads (run ops p) = envReads p"
    using run_reads [OF ci lt] by blast
  moreover have "before = [] \<longrightarrow>
      envReads p = 1 \<and> heap p r = Some (ConfigInstance (loadConfiguration e))"
    using assms getConfig_startup [of e r p] by auto
  ultimately show ?thesis by blast
qed

text \<open>
  A process started in a minimal environment. After operations of every kind
  (\<open>loadConfiguration()\<close>, \<open>new Config()\<close>, a write to the port of the instance) \<open>getConfig\<close>
  still returns the first instance. After operations that neither write to it nor call
  \<open>loadConfiguration()\<close>, and that do not read the environment (the key is removed from the
  environment, the sanitized copy is taken, the port is changed to one that would not
  validate), the object is as it was built and the environment has been read once; a new
  construction would throw.
\<close>

theorem getConfig_singleton_witness:
  "fst (getConfig (startup envMinimal)) = Inr 0
   \<and> fst (getConfig (run opsAny (snd (getConfig (startup envMinimal))))) = Inr 0
   \<and> list_all (\<lambda>x. \<not> changes 0 x) opsExample
   \<and> list_all (\<lambda>x. \<not> readsEnvironment x) opsExample
   \<and> heap (run opsExample (snd (getConfig (startup envMinimal)))) 0
       = Some (ConfigInstance (loadConfiguration envMinimal))
   \<and> envReads (run opsExample (snd (getConfig (startup envMinimal)))) = 1
   \<and> isl (Config_new (environ (run opsExample (snd (getConfig (startup envMinimal))))))"
proof -
  let ?p = "snd (getConfig (startup envMinimal))"
  have s: "fst (getConfig (startup envMinimal)) = Inr 0"
    by code_simp
  then have h: "getConfig (run [] (startup envMinimal)) = (Inr 0, ?p)"
    by (simp add: prod_eq_iff)
  have c: "list_all (\<lambda>x. \<not> changes 0 x) opsExample"
    and e: "list_all (\<lambda>x. \<not> readsEnvironment x) opsExample"
    by (simp_all add: opsExample_def)
  have t: "isl (Config_new (environ (run opsExample ?p)))"
    by code_simp
  from getConfig_singleton [OF h, of opsAny]
  have 1: "fst (getConfig (run opsAny ?p)) = Inr 0"
    by simp
  from getConfig_singleton [OF h, of opsExample] c e
  have 2: "heap (run opsExample ?p) 0 = Some (ConfigInstance (loadConfiguration envMinimal))"
    and 3: "envReads (run opsExample ?p) = 1"
    by simp_all
  from s 1 c e 2 3 t show ?thesis by blast
qed

text \<open>
  The claim as written (read exactly once, and no operation changes a field) fails on
  the public method \<open>loadConfiguration()\<close> of the instance: after the port is changed in the
  environment and the method is called, the port of the singleton is 8081 where it was
  3000, and the environment has been read twice.
\<close>

theorem getConfig_reload_counterexample:
  "fst (getConfig (startup envMinimal)) = Inr 0
   \<and> portAt (snd (getConfig (startup envMinimal))) 0 = Some (Num 3000)
   \<and> envReads (snd (getConfig (startup envMinimal))) = 1
   \<and> portAt (run opsReload (snd (getConfig (startup envMinimal)))) 0 = Some (Num 8081)
   \<and> envReads (run opsReload (snd (getConfig (startup envMinimal)))) = 2"
proof (intro conjI)
  show "fst (getConfig (startup envMinimal)) = Inr 0" by code_simp
  show "portAt (snd (getConfig (startup envMinimal))) 0 = Some (Num 3000)" by code_simp
  show "envReads (snd (getConfig (startup envMinimal))) = 1" by code_simp
  show "portAt (run opsReload (snd (getConfig (startup envMinimal)))) 0 = Some (Num 8081)"
    by code_simp
  show "envReads (run opsReload (snd (getConfig (startup envMinimal)))) = 2" by code_simp
qed

section \<open>GET /health and the health check script\<close>

lemma healthcheck_zero_iff:
  "healthcheck out = 0 \<longleftrightarrow>
     (\<exists>v. out = Response \<lparr>statusCode = 200, content = JsonText v\<rparr> \<and> v \<noteq> JNull \<and>
          property v ''status'' = Some (JString ''healthy''))"
proof (cases out)
  case (Response res)
  obtain k b where res: "res = \<lparr>statusCode = k, content = b\<rparr>"
    by (cases res) auto
  show ?thesis
  proof (cases b)
    case (JsonText v)
    with Response res show ?thesis
      by (cases v) (auto simp: healthcheck_def JSON_parse_def)
  next
    case (PlainText s)
    with Response res show ?thesis
      by (simp add: healthcheck_def JSON_parse_def)
  qed
qed (simp_all add: healthcheck_def)

lemma health_status:
  "statusCode (health c now up) = 200 \<and>
   (\<exists>v. content (health c now up) = JsonText v \<and>
        property v ''status'' = Some (JString ''healthy''))"
  by (simp add: health_def property_def)

lemma healthcheck_health: "healthcheck (Response (health c now up)) = 0"
  by (simp add: health_def property_def healthcheck_def JSON_parse_def)

lemma healthcheck_limited: "healthcheck (Response (getHealth Limited c now up)) = 1"
  by (simp add: getHealth_def healthcheck_def JSON_parse_def)

text \<open>
  Claim C10, as amended. The handler of \<open>GET /health\<close> answers every request it gets with
  status 200 and a body whose \<open>status\<close> is \<open>healthy\<close>, whatever the configuration holds.
  The health check script exits with 0 exactly when it receives status 200 and a JSON
  body, not \<open>null\<close>, whose \<open>status\<close> is \<open>healthy\<close>. So the check passes on every response
  of the handler. It does not pass on every response of the server: a request the rate
  limiter refuses is answered with status 429 before the handler runs, and the script
  exits with 1.
\<close>

theorem health_passes_healthcheck:
  "statusCode (health c now up) = 200
   \<and> (\<exists>v. content (health c now up) = JsonText v \<and>
          property v ''status'' = Some (JString ''healthy''))
   \<and> (healthcheck out = 0 \<longleftrightarrow>
        (\<exists>v. out = Response \<lparr>statusCode = 200, content = JsonText v\<rparr> \<and> v \<noteq> JNull \<and>
             property v ''status'' = Some (JString ''healthy'')))
   \<and> healthcheck (Response (getHealth Pass c now up)) = 0
   \<and> healthcheck (Response (getHealth Limited c now up)) = 1"
proof (intro conjI)
  show "statusCode (health c now up) = 200"
    using health_status by blast
  show "\<exists>v. content (health c now up) = JsonText v \<and>
          property v ''status'' = Some (JString ''healthy'')"
    using health_status by blast
  show "healthcheck out = 0 \<longleftrightarrow>
        (\<exists>v. out = Response \<lparr>statusCode = 200, content = JsonText v\<rparr> \<and> v \<noteq> JNull \<and>
             property v ''status'' = Some (JString ''healthy''))"
    by (rule healthcheck_zero_iff)
  show "healthcheck (Response (getHealth Pass c now up)) = 0"
    by (simp add: getHealth_def healthcheck_health)
  show "healthcheck (Response (getHealth Limited c now up)) = 1"
    by (rule healthcheck_limited)
qed

text \<open>
  The claim as written (the check passes whenever the server responds at all) fails on a
  request the rate limiter refuses: the server responds, with status 429, and the script
  exits with 1.
\<close>

theorem healthcheck_rate_limited_counterexample:
  "statusCode (getHealth Limited configMinimal ''2024-01-01T12:00:00.000Z'' 42) = 429
   \<and> healthcheck (Response (getHealth Limited configMinimal ''2024-01-01T12:00:00.000Z'' 42)) = 1"
  by (simp add: getHealth_def healthcheck_def JSON_parse_def)

section \<open>GET /health/api: the call to the Groq API\<close>

text \<open>
  The one call of a provider in the sources: the handler sends one request to the Groq
  API when the Groq key is present and none when it is absent; in that case the SDK is not
  consulted and the handler answers, with the service reported as \<open>missing_api_key\<close> and
  status 503. No configuration that the constructor built is without the key.
\<close>

lemma healthApi_calls:
  "fst (healthApi sdk c now checked up) =
     (if hasGroqApiKey c then
        [\<lparr>req_apiKey = apiKey (groq c), req_baseURL = baseUrl (groq c), req_timeout = 10000,
          req_model = model (groq c), req_content = ''test'', req_max_tokens = 1,
          req_temperature = 0\<rparr>]
      else [])"
  by (simp add: healthApi_def Let_def)

lemma healthApi_no_key:
  "\<not> hasGroqApiKey c \<Longrightarrow> healthApi sdk c now checked up = healthApi sdk' c now checked' up"
  by (simp add: healthApi_def Let_def)

lemma healthApi_no_key_response:
  "\<not> hasGroqApiKey c \<Longrightarrow>
     statusCode (snd (healthApi sdk c now checked up)) = 503 \<and>
     (\<exists>v g s. content (snd (healthApi sdk c now checked up)) = JsonText v \<and>
        property v ''services'' = Some g \<and> property g ''groq'' = Some s \<and>
        property s ''status'' = Some (JString ''missing_api_key''))"
  by (simp add: healthApi_def Let_def property_def)

lemma has_key_iff:
  "hasGroqApiKey c \<longleftrightarrow> (\<exists>k. apiKey (groq c) = Some k \<and> k \<noteq> [])"
  "hasOpenAiApiKey c \<longleftrightarrow> (\<exists>k. apiKey (openai c) = Some k \<and> k \<noteq> [])"
  "hasElevenLabsApiKey c \<longleftrightarrow> (\<exists>k. el_apiKey (elevenlabs c) = Some k \<and> k \<noteq> [])"
  "hasWebSearchApiKey c \<longleftrightarrow> (\<exists>k. ws_apiKey (webSearch c) = Some k \<and> k \<noteq> [])"
  by (auto simp: hasGroqApiKey_def hasOpenAiApiKey_def hasElevenLabsApiKey_def
        hasWebSearchApiKey_def truthy_def split: option.splits)

section \<open>The intent resolution pipeline, as the specification describes it\<close>

lemma canonical_action: "action (canonical V p s st) \<in> set V \<union> {''unknown''}"
  by (simp add: canonical_def split: option.splits)

lemma parse_action: "action (parse D s) \<in> set (verb_set D) \<union> {''unknown''}"
  using canonical_action [of "verb_set D" Fallback s]
  by (simp add: parse_def unknownIntent_def Let_def split: option.splits)

lemma normalize_action:
  "normalize D raw p s = Inr i \<Longrightarrow> action i \<in> set (verb_set D) \<union> {''unknown''}"
  using canonical_action [of "verb_set D" p s]
  by (auto simp: normalize_def split: option.splits)

lemma attemptProvider_action:
  "attemptProvider D p client s ctx = (Some i, a) \<Longrightarrow>
   action i \<in> set (verb_set D) \<union> {''unknown''}"
  by (auto simp: attemptProvider_def split: sum.splits dest: normalize_action)

lemma trySecondary_action:
  "action (fst (trySecondary D c s ctx)) \<in> set (verb_set D) \<union> {''unknown''}"
proof -
  obtain r a where at: "attemptProvider D Secondary (secondary D) s ctx = (r, a)"
    by (cases "attemptProvider D Secondary (secondary D) s ctx")
  show ?thesis
  proof (cases r)
    case None
    with at show ?thesis
      using parse_action [of D s] by (simp add: trySecondary_def tryFallback_def)
  next
    case (Some i)
    with at attemptProvider_action [of D Secondary "secondary D" s ctx i a] show ?thesis
      using parse_action [of D s] by (simp add: trySecondary_def tryFallback_def)
  qed
qed

lemma tryPrimary_action:
  "action (fst (tryPrimary D c s ctx)) \<in> set (verb_set D) \<union> {''unknown''}"
proof -
  obtain r a where at: "attemptProvider D Primary (primary D) s ctx = (r, a)"
    by (cases "attemptProvider D Primary (primary D) s ctx")
  show ?thesis
  proof (cases r)
    case None
    with at show ?thesis
      using trySecondary_action [of D c s ctx]
      by (cases "trySecondary D c s ctx") (auto simp: tryPrimary_def)
  next
    case (Some i)
    with at attemptProvider_action [of D Primary "primary D" s ctx i a] show ?thesis
      using trySecondary_action [of D c s ctx] by (simp add: tryPrimary_def)
  qed
qed

lemma attemptProvider_fails:
  "isl (client s ctx) \<Longrightarrow>
   attemptProvider D p client s ctx = (None, (p, ProviderFailed (projl (client s ctx))))"
  by (auto simp: attemptProvider_def split: sum.splits)

lemma resolveIntent_both_fail:
  assumes "isl (primary D s ctx)" "isl (secondary D s ctx)"
  shows "fst (resolveIntent D c s ctx) = parse D s"
  using attemptProvider_fails [of "primary D" s ctx D Primary, OF assms(1)]
    attemptProvider_fails [of "secondary D" s ctx D Secondary, OF assms(2)]
  by (auto simp: resolveIntent_def tryPrimary_def trySecondary_def tryFallback_def)

lemma resolveIntent_unconfigured:
  "\<not> hasGroqApiKey c \<Longrightarrow> \<not> hasOpenAiApiKey c \<Longrightarrow> resolveIntent D c s ctx = (parse D s, [])"
  by (simp add: resolveIntent_def tryPrimary_def trySecondary_def tryFallback_def)

lemma resolveIntent_secondary:
  assumes "hasGroqApiKey c" "hasOpenAiApiKey c"
    and p: "isl (primary D s ctx) \<or>
       (\<exists>raw. primary D s ctx = Inr raw \<and> isl (normalize D raw Primary s))"
    and s2: "secondary D s ctx = Inr raw2" and d: "decode D raw2 = Some st"
  shows "resolveIntent D c s ctx =
          (canonical (verb_set D) Secondary s st,
           [(Primary, case primary D s ctx of
                        Inl err \<Rightarrow> ProviderFailed err
                      | Inr raw \<Rightarrow> NormalizationFailed),
            (Secondary, Succeeded)])"
proof -
  have a1: "attemptProvider D Primary (primary D) s ctx =
     (None, (Primary, case primary D s ctx of
                        Inl err \<Rightarrow> ProviderFailed err
                      | Inr raw \<Rightarrow> NormalizationFailed))"
    using p by (auto simp: attemptProvider_def split: sum.splits)
  have a2: "attemptProvider D Secondary (secondary D) s ctx =
     (Some (canonical (verb_set D) Secondary s st), (Secondary, Succeeded))"
    using s2 d by (simp add: attemptProvider_def normalize_def)
  show ?thesis
    using assms(1,2) by (simp add: resolveIntent_def tryPrimary_def trySecondary_def a1 a2)
qed

text \<open>
  Claim C1, on the model of the specification. For every input, every context, every
  configuration and whatever the providers answer, \<open>resolveIntent\<close> returns an Intent
  whose action is in the closed verb set or is \<open>unknown\<close>. The errors of the providers
  are not passed on: when the call of each provider fails, the Intent returned is the one
  of the fallback parser.
\<close>

theorem resolveIntent_total:
  "action (fst (resolveIntent D c s ctx)) \<in> set (verb_set D) \<union> {''unknown''}
   \<and> (isl (primary D s ctx) \<and> isl (secondary D s ctx) \<longrightarrow>
        fst (resolveIntent D c s ctx) = parse D s)"
  using tryPrimary_action [of D c s ctx] resolveIntent_both_fail [of D s ctx c]
  by (simp add: resolveIntent_def)

text \<open>
  Both providers configured and both failing: the Intent is the one of the fallback
  parser, and each provider was tried once.
\<close>

theorem resolveIntent_total_witness:
  "isl (primary deploymentDown ''Scroll Down'' contextExample)
   \<and> isl (secondary deploymentDown ''Scroll Down'' contextExample)
   \<and> fst (resolveIntent deploymentDown configBothKeys ''Scroll Down'' contextExample) =
       \<lparr>action = ''scroll'', target = None, parameters = [(''direction'', ''down'')],
        confidence = 2 / 5, providerUsed = Fallback, rawText = ''Scroll Down''\<rparr>
   \<and> snd (resolveIntent deploymentDown configBothKeys ''Scroll Down'' contextExample) =
       [(Primary, ProviderFailed ServerError), (Secondary, ProviderFailed RateLimited)]"
proof -
  have p: "isl (primary deploymentDown ''Scroll Down'' contextExample)"
    and q: "isl (secondary deploymentDown ''Scroll Down'' contextExample)"
    by code_simp+
  have v: "parse deploymentDown ''Scroll Down'' =
       \<lparr>action = ''scroll'', target = None, parameters = [(''direction'', ''down'')],
        confidence = 2 / 5, providerUsed = Fallback, rawText = ''Scroll Down''\<rparr>"
    by code_simp
  have l: "snd (resolveIntent deploymentDown configBothKeys ''Scroll Down'' contextExample) =
       [(Primary, ProviderFailed ServerError), (Secondary, ProviderFailed RateLimited)]"
    by code_simp
  from resolveIntent_total [of deploymentDown configBothKeys "''Scroll Down''" contextExample] p q
  have "fst (resolveIntent deploymentDown configBothKeys ''Scroll Down'' contextExample) =
          parse deploymentDown ''Scroll Down''"
    by blast
  with p q v l show ?thesis by simp
qed

text \<open>
  Claim C2, on the model of the specification. When neither provider has a credential,
  \<open>resolveIntent\<close> returns the Intent of the fallback parser, the same in every field, and
  makes no attempt. On the configuration loader of the sources: a configuration that was
  constructed has the Groq key, so the condition holds of no constructed configuration.
\<close>

theorem resolveIntent_unconfigured_is_parse:
  "(\<not> hasGroqApiKey c \<and> \<not> hasOpenAiApiKey c \<longrightarrow> resolveIntent D c s ctx = (parse D s, []))
   \<and> (Config_new e = Inr (c', ws) \<longrightarrow> hasGroqApiKey c')"
  using resolveIntent_unconfigured [of c D s ctx] Config_new_has_groq [of e c' ws]
  by blast

text \<open>
  The end-to-end scenario of the specification: \<open>scroll down\<close> with no provider
  configured. And a minimal environment, whose configuration has the Groq key.
\<close>

theorem resolveIntent_unconfigured_is_parse_witness:
  "\<not> hasGroqApiKey configNoKeys \<and> \<not> hasOpenAiApiKey configNoKeys
   \<and> resolveIntent deploymentExample configNoKeys ''scroll down'' contextExample =
       (\<lparr>action = ''scroll'', target = None, parameters = [(''direction'', ''down'')],
         confidence = 2 / 5, providerUsed = Fallback, rawText = ''scroll down''\<rparr>, [])
   \<and> Config_new envMinimal =
       Inr (configMinimal, [MissingOptional [''OPENAI_API_KEY'', ''ELEVENLABS_API_KEY'',
                                             ''WEB_SEARCH_API_KEY'']])
   \<and> hasGroqApiKey configMinimal"
proof -
  have n: "\<not> hasGroqApiKey configNoKeys" "\<not> hasOpenAiApiKey configNoKeys"
    by code_simp+
  have v: "parse deploymentExample ''scroll down'' =
       \<lparr>action = ''scroll'', target = None, parameters = [(''direction'', ''down'')],
        confidence = 2 / 5, providerUsed = Fallback, rawText = ''scroll down''\<rparr>"
    by code_simp
  have k: "Config_new envMinimal =
       Inr (configMinimal, [MissingOptional [''OPENAI_API_KEY'', ''ELEVENLABS_API_KEY'',
                                             ''WEB_SEARCH_API_KEY'']])"
    by code_simp
  note inst = resolveIntent_unconfigured_is_parse
    [where c = configNoKeys and D = deploymentExample and s = "''scroll down''"
       and ctx = contextExample and e = envMinimal and c' = configMinimal
       and ws = "[MissingOptional [''OPENAI_API_KEY'', ''ELEVENLABS_API_KEY'',
                                   ''WEB_SEARCH_API_KEY'']]"]
  from inst n have "resolveIntent deploymentExample configNoKeys ''scroll down'' contextExample =
      (parse deploymentExample ''scroll down'', [])"
    by blast
  moreover from inst k have "hasGroqApiKey configMinimal"
    by blast
  ultimately show ?thesis using n v k by simp
qed

text \<open>
  Claim C3, on the model of the specification. With both providers configured, when the
  attempt on the primary provider fails (the call fails, a timeout being one of the
  provider errors, or its text cannot be normalized) and the secondary provider answers
  with a text that decodes, the Intent returned is the normalized answer of the secondary
  provider, with \<open>providerUsed\<close> secondary; the log holds one failed attempt on the primary
  provider followed by one successful attempt on the secondary one, and nothing else.
\<close>

theorem resolveIntent_priority:
  assumes "hasGroqApiKey c" and "hasOpenAiApiKey c"
    and "isl (primary D s ctx) \<or>
         (\<exists>raw. primary D s ctx = Inr raw \<and> isl (normalize D raw Primary s))"
    and "secondary D s ctx = Inr raw2" and "decode D raw2 = Some st"
  shows "providerUsed (fst (resolveIntent D c s ctx)) = Secondary
       \<and> fst (resolveIntent D c s ctx) = canonical (verb_set D) Secondary s st
       \<and> (\<exists>f. f \<noteq> Succeeded \<and>
              snd (resolveIntent D c s ctx) = [(Primary, f), (Secondary, Succeeded)])"
proof -
  note r = resolveIntent_secondary [OF assms]
  have "(case primary D s ctx of Inl err \<Rightarrow> ProviderFailed err | Inr raw \<Rightarrow> NormalizationFailed)
          \<noteq> Succeeded"
    by (simp split: sum.splits)
  with r show ?thesis
    by (simp add: canonical_def)
qed

text \<open>
  The primary provider answers with a server error and the secondary one with a text
  that decodes to a click.
\<close>

theorem resolveIntent_priority_witness:
  "hasGroqApiKey configBothKeys \<and> hasOpenAiApiKey configBothKeys
   \<and> isl (primary deploymentExample ''Click on the submit button'' contextExample)
   \<and> fst (resolveIntent deploymentExample configBothKeys ''Click on the submit button''
            contextExample) =
       \<lparr>action = ''click'', target = Some ''Submit'', parameters = [], confidence = 9 / 10,
        providerUsed = Secondary, rawText = ''Click on the submit button''\<rparr>
   \<and> snd (resolveIntent deploymentExample configBothKeys ''Click on the submit button''
            contextExample) =
       [(Primary, ProviderFailed ServerError), (Secondary, Succeeded)]"
proof -
  let ?s = "''Click on the submit button''"
  let ?st = "\<lparr>s_action = Some ''click'', s_target = Some ''Submit'', s_parameters = [],
              s_confidence = Some (9 / 10)\<rparr>"
  have g: "hasGroqApiKey configBothKeys" and a: "hasOpenAiApiKey configBothKeys"
    by code_simp+
  have p: "isl (primary deploymentExample ?s contextExample)"
    by code_simp
  then have p': "isl (primary deploymentExample ?s contextExample) \<or>
      (\<exists>raw. primary deploymentExample ?s contextExample = Inr raw \<and>
             isl (normalize deploymentExample raw Primary ?s))"
    by blast
  have q: "secondary deploymentExample ?s contextExample =
             Inr ''{action: click, target: Submit, confidence: 0.9}''"
    by code_simp
  have d: "decode deploymentExample ''{action: click, target: Submit, confidence: 0.9}'' = Some ?st"
    by code_simp
  have v: "canonical (verb_set deploymentExample) Secondary ?s ?st =
       \<lparr>action = ''click'', target = Some ''Submit'', parameters = [], confidence = 9 / 10,
        providerUsed = Secondary, rawText = ?s\<rparr>"
    by code_simp
  have l: "snd (resolveIntent deploymentExample configBothKeys ?s contextExample) =
       [(Primary, ProviderFailed ServerError), (Secondary, Succeeded)]"
    by code_simp
  from resolveIntent_priority [OF g a p' q d] v
  have "fst (resolveIntent deploymentExample configBothKeys ?s contextExample) =
       \<lparr>action = ''click'', target = Some ''Submit'', parameters = [], confidence = 9 / 10,
        providerUsed = Secondary, rawText = ?s\<rparr>"
    by simp
  with g a p l show ?thesis by simp
qed

lemma attemptProvider_logged: "fst (snd (attemptProvider D p client s ctx)) = p"
  by (simp add: attemptProvider_def split: sum.splits)

lemma trySecondary_log:
  assumes "(p, out) \<in> set (snd (trySecondary D c s ctx))"
  shows "p = Secondary \<and> hasOpenAiApiKey c"
proof (cases "hasOpenAiApiKey c")
  case False
  with assms show ?thesis by (simp add: trySecondary_def)
next
  case True
  obtain r a where at: "attemptProvider D Secondary (secondary D) s ctx = (r, a)"
    by (cases "attemptProvider D Secondary (secondary D) s ctx")
  with attemptProvider_logged [of D Secondary "secondary D" s ctx] have "fst a = Secondary"
    by simp
  with assms True at show ?thesis
    by (cases r) (auto simp: trySecondary_def)
qed

lemma tryPrimary_log:
  assumes "(p, out) \<in> set (snd (tryPrimary D c s ctx))"
  shows "(p = Primary \<and> hasGroqApiKey c) \<or> (p = Secondary \<and> hasOpenAiApiKey c)"
proof (cases "hasGroqApiKey c")
  case False
  with assms trySecondary_log [of p out D c s ctx] show ?thesis
    by (simp add: tryPrimary_def)
next
  case True
  obtain r a where at: "attemptProvider D Primary (primary D) s ctx = (r, a)"
    by (cases "attemptProvider D Primary (primary D) s ctx")
  with attemptProvider_logged [of D Primary "primary D" s ctx] have fa: "fst a = Primary"
    by simp
  show ?thesis
  proof (cases r)
    case (Some i)
    with assms True at fa show ?thesis by (auto simp: tryPrimary_def)
  next
    case None
    with assms True at have "(p, out) = a \<or> (p, out) \<in> set (snd (trySecondary D c s ctx))"
      by (cases "trySecondary D c s ctx") (auto simp: tryPrimary_def)
    with fa True trySecondary_log [of p out D c s ctx] show ?thesis by auto
  qed
qed

lemma normalize_providers:
  "normalize (D\<lparr>secondary := q\<rparr>) raw p s = normalize D raw p s"
  "normalize (D\<lparr>primary := q\<rparr>) raw p s = normalize D raw p s"
  by (simp_all add: normalize_def split: option.splits)

lemma parse_providers:
  "parse (D\<lparr>secondary := q\<rparr>) s = parse D s"
  "parse (D\<lparr>primary := q\<rparr>) s = parse D s"
  by (simp_all add: parse_def Let_def split: option.splits)

lemma attemptProvider_providers:
  "attemptProvider (D\<lparr>secondary := q\<rparr>) p client s ctx = attemptProvider D p client s ctx"
  "attemptProvider (D\<lparr>primary := q\<rparr>) p client s ctx = attemptProvider D p client s ctx"
  by (simp_all add: attemptProvider_def normalize_providers split: sum.splits)

lemma trySecondary_primary:
  "trySecondary (D\<lparr>primary := q\<rparr>) c s ctx = trySecondary D c s ctx"
  by (simp add: trySecondary_def tryFallback_def attemptProvider_providers parse_providers
        split: prod.splits option.splits)

lemma secondary_absent:
  assumes "\<not> hasOpenAiApiKey c"
  shows "trySecondary D c s ctx = (parse D s, [])"
    and "resolveIntent (D\<lparr>secondary := q\<rparr>) c s ctx = resolveIntent D c s ctx"
proof -
  show 1: "trySecondary D c s ctx = (parse D s, [])" for D
    using assms by (simp add: trySecondary_def tryFallback_def)
  show "resolveIntent (D\<lparr>secondary := q\<rparr>) c s ctx = resolveIntent D c s ctx"
    by (simp add: resolveIntent_def tryPrimary_def 1 attemptProvider_providers parse_providers
          split: prod.splits option.splits)
qed

lemma primary_absent:
  assumes "\<not> hasGroqApiKey c"
  shows "tryPrimary D c s ctx = trySecondary D c s ctx"
    and "resolveIntent (D\<lparr>primary := q\<rparr>) c s ctx = resolveIntent D c s ctx"
  using assms
  by (simp_all add: resolveIntent_def tryPrimary_def trySecondary_primary)

text \<open>
  Which providers the resolver of the specification tries. A credential is present when
  the key of the provider in the configuration is a string that is not empty
  (\<open>hasGroqApiKey\<close>, \<open>hasOpenAiApiKey\<close>). For each of the two providers: an attempt on the
  provider is in the log only if its credential is present; and when its credential is
  absent its stage is passed over, with no attempt logged, no error, and a result that is
  the same whatever the provider would have answered: without the OpenAI key the stage of
  the secondary provider gives the Intent of the fallback parser and an empty log, and
  without the Groq key the resolver is its stage of the secondary provider. (No
  configuration that the constructor built is without the Groq key; one without the OpenAI
  key is the configuration of a minimal environment.)
\<close>

theorem resolveIntent_skips_unconfigured:
  "((Primary, outP) \<in> set (snd (resolveIntent D c s ctx)) \<longrightarrow> hasGroqApiKey c)
   \<and> ((Secondary, outS) \<in> set (snd (resolveIntent D c s ctx)) \<longrightarrow> hasOpenAiApiKey c)
   \<and> (\<not> hasOpenAiApiKey c \<longrightarrow>
        trySecondary D c s ctx = (parse D s, [])
      \<and> resolveIntent (D\<lparr>secondary := q\<rparr>) c s ctx = resolveIntent D c s ctx)
   \<and> (\<not> hasGroqApiKey c \<longrightarrow>
        tryPrimary D c s ctx = trySecondary D c s ctx
      \<and> resolveIntent (D\<lparr>primary := q\<rparr>) c s ctx = resolveIntent D c s ctx)"
proof (intro conjI impI)
  assume "(Primary, outP) \<in> set (snd (resolveIntent D c s ctx))"
  with tryPrimary_log [of Primary outP D c s ctx] show "hasGroqApiKey c"
    by (simp add: resolveIntent_def)
next
  assume "(Secondary, outS) \<in> set (snd (resolveIntent D c s ctx))"
  with tryPrimary_log [of Secondary outS D c s ctx] show "hasOpenAiApiKey c"
    by (simp add: resolveIntent_def)
next
  assume n: "\<not> hasOpenAiApiKey c"
  from n show "trySecondary D c s ctx = (parse D s, [])"
    by (rule secondary_absent)
  from n show "resolveIntent (D\<lparr>secondary := q\<rparr>) c s ctx = resolveIntent D c s ctx"
    by (rule secondary_absent)
next
  assume n: "\<not> hasGroqApiKey c"
  from n show "tryPrimary D c s ctx = trySecondary D c s ctx"
    by (rule primary_absent)
  from n show "resolveIntent (D\<lparr>primary := q\<rparr>) c s ctx = resolveIntent D c s ctx"
    by (rule primary_absent)
qed

text \<open>
  A configuration built with both keys: both providers are tried. The configuration of a
  minimal environment, with no OpenAI key: the secondary provider is not tried, and the
  result is the same with a secondary provider that times out. A configuration with no
  keys: the same for the primary provider.
\<close>

theorem resolveIntent_skips_unconfigured_witness:
  "Config_new envOpenAi =
     Inr (configOpenAi, [MissingOptional [''ELEVENLABS_API_KEY'', ''WEB_SEARCH_API_KEY'']])
   \<and> snd (resolveIntent deploymentExample configOpenAi ''Scroll down'' contextExample) =
       [(Primary, ProviderFailed ServerError), (Secondary, Succeeded)]
   \<and> hasGroqApiKey configOpenAi \<and> hasOpenAiApiKey configOpenAi
   \<and> Config_new envMinimal =
       Inr (configMinimal, [MissingOptional [''OPENAI_API_KEY'', ''ELEVENLABS_API_KEY'',
                                             ''WEB_SEARCH_API_KEY'']])
   \<and> \<not> hasOpenAiApiKey configMinimal
   \<and> snd (resolveIntent deploymentExample configMinimal ''Scroll down'' contextExample) =
       [(Primary, ProviderFailed ServerError)]
   \<and> resolveIntent (deploymentExample\<lparr>secondary := providerTimeout\<rparr>) configMinimal
         ''Scroll down'' contextExample
       = resolveIntent deploymentExample configMinimal ''Scroll down'' contextExample
   \<and> \<not> hasGroqApiKey configNoKeys
   \<and> resolveIntent (deploymentExample\<lparr>primary := providerTimeout\<rparr>) configNoKeys
         ''Scroll down'' contextExample
       = resolveIntent deploymentExample configNoKeys ''Scroll down'' contextExample"
proof -
  let ?s = "''Scroll down''"
  have k1: "Config_new envOpenAi =
     Inr (configOpenAi, [MissingOptional [''ELEVENLABS_API_KEY'', ''WEB_SEARCH_API_KEY'']])"
    by code_simp
  have k2: "Config_new envMinimal =
       Inr (configMinimal, [MissingOptional [''OPENAI_API_KEY'', ''ELEVENLABS_API_KEY'',
                                             ''WEB_SEARCH_API_KEY'']])"
    by code_simp
  have l1: "snd (resolveIntent deploymentExample configOpenAi ?s contextExample) =
       [(Primary, ProviderFailed ServerError), (Secondary, Succeeded)]"
    by code_simp
  have l2: "snd (resolveIntent deploymentExample configMinimal ?s contextExample) =
       [(Primary, ProviderFailed ServerError)]"
    by code_simp
  have n2: "\<not> hasOpenAiApiKey configMinimal" and n3: "\<not> hasGroqApiKey configNoKeys"
    by code_simp+
  note i1 = resolveIntent_skips_unconfigured
    [where D = deploymentExample and c = configOpenAi and s = ?s and ctx = contextExample
       and outP = "ProviderFailed ServerError" and outS = Succeeded]
  from i1 l1 have g: "hasGroqApiKey configOpenAi" and a: "hasOpenAiApiKey configOpenAi"
    by simp_all
  note i2 = resolveIntent_skips_unconfigured
    [where D = deploymentExample and c = configMinimal and s = ?s and ctx = contextExample
       and q = providerTimeout]
  from i2 n2 have e2: "resolveIntent (deploymentExample\<lparr>secondary := providerTimeout\<rparr>)
         configMinimal ?s contextExample
       = resolveIntent deploymentExample configMinimal ?s contextExample"
    by blast
  note i3 = resolveIntent_skips_unconfigured
    [where D = deploymentExample and c = configNoKeys and s = ?s and ctx = contextExample
       and q = providerTimeout]
  from i3 n3 have e3: "resolveIntent (deploymentExample\<lparr>primary := providerTimeout\<rparr>)
         configNoKeys ?s contextExample
       = resolveIntent deploymentExample configNoKeys ?s contextExample"
    by blast
  from k1 l1 g a k2 n2 l2 e2 n3 e3 show ?thesis by blast
qed

end
